theory Spec2Isabelle
  imports Complex_Main "HOL-Library.AList" "HOL-Library.Multiset"
begin

section \<open>Python values\<close>

text \<open>
  A Python \<open>str\<close> is a sequence of Unicode code points, so it is modelled as a list of
  natural numbers; \<open>ascii\<close> embeds an ASCII literal.  Slicing and \<open>len\<close> then count code
  points, as Python does.
\<close>

type_synonym pystr = "nat list"

definition ascii :: "string \<Rightarrow> pystr" where
  "ascii cs = map of_char cs"

text \<open>
  The exceptions the modelled code can meet.  \<open>StoreError\<close> stands for any
  \<open>psycopg2.Error\<close> and carries its message; \<open>TransportError\<close> for an exception of an
  outbound API call; \<open>HTTPError\<close> is what \<open>raise_for_status\<close> raises.
\<close>

datatype exn =
    IndexError
  | ValueError
  | KeyError
  | TypeError
  | HTTPError
  | StoreError pystr
  | TransportError pystr

text \<open>A Python dict with \<open>str\<close> keys, in insertion order; \<open>d[k] = v\<close> is \<open>AList.update\<close>.\<close>

type_synonym 'v pydict = "(pystr \<times> 'v) list"

definition dict_get :: "'v pydict \<Rightarrow> pystr \<Rightarrow> 'v \<Rightarrow> 'v" where
  "dict_get d k dflt = (case map_of d k of None \<Rightarrow> dflt | Some v \<Rightarrow> v)"

definition dict_keys :: "'v pydict \<Rightarrow> pystr list" where
  "dict_keys d = map fst d"


section \<open>The realtime report (app.py)\<close>

text \<open>
  A row of a \<open>RunRealtimeReportResponse\<close>.  A dimension value is its string.  A metric
  value is a string that the code only ever passes to \<open>int()\<close>, so it is represented by
  what \<open>int()\<close> makes of it: \<open>IntText n\<close> when it parses to \<open>n\<close>, \<open>NonIntText\<close> when
  \<open>int()\<close> raises \<open>ValueError\<close>.
\<close>

datatype metric_text = IntText int | NonIntText

record ga4_row =
  dimension_values :: "pystr list"
  metric_values :: "metric_text list"

record ga4_data =
  users_5min :: "ga4_row list"
  users_30min :: "ga4_row list"
  by_device :: "ga4_row list"
  by_page :: "ga4_row list"

text \<open>
  \<open>fetch_ga4_realtime_data\<close>: four calls of \<open>client.run_realtime_report\<close>, in this order;
  each either raises or returns its rows, and the first exception leaves the function.
\<close>

definition fetch_ga4_realtime_data ::
  "exn + ga4_row list \<Rightarrow> exn + ga4_row list \<Rightarrow> exn + ga4_row list \<Rightarrow> exn + ga4_row list
     \<Rightarrow> exn + ga4_data" where
  "fetch_ga4_realtime_data response_5min response_30min response_device response_page =
     (case response_5min of Inl e \<Rightarrow> Inl e | Inr r5 \<Rightarrow>
     (case response_30min of Inl e \<Rightarrow> Inl e | Inr r30 \<Rightarrow>
     (case response_device of Inl e \<Rightarrow> Inl e | Inr rd \<Rightarrow>
     (case response_page of Inl e \<Rightarrow> Inl e | Inr rp \<Rightarrow>
        Inr \<lparr>users_5min = r5, users_30min = r30, by_device = rd, by_page = rp\<rparr>))))"


subsection \<open>The city reference table\<close>

record city_info =
  lat :: rat
  lng :: rat
  name :: pystr

definition VIETNAM_CITIES :: "city_info pydict" where
  "VIETNAM_CITIES =
    [(ascii ''Hanoi'', \<lparr>lat = 21.0285, lng = 105.8542,
        name = ascii ''H'' @ [224] @ ascii '' N'' @ [7897] @ ascii ''i''\<rparr>),
     (ascii ''Ho Chi Minh City'', \<lparr>lat = 10.8231, lng = 106.6297,
        name = ascii ''TP. H'' @ [7891] @ ascii '' Ch'' @ [237] @ ascii '' Minh''\<rparr>),
     (ascii ''Da Nang'', \<lparr>lat = 16.0544, lng = 108.2022,
        name = [272] @ [224] @ ascii '' N'' @ [7861] @ ascii ''ng''\<rparr>),
     (ascii ''Hai Phong'', \<lparr>lat = 20.8449, lng = 106.6881,
        name = ascii ''H'' @ [7843] @ ascii ''i Ph'' @ [242] @ ascii ''ng''\<rparr>),
     (ascii ''Can Tho'', \<lparr>lat = 10.0452, lng = 105.7469,
        name = ascii ''C'' @ [7847] @ ascii ''n Th'' @ [417]\<rparr>),
     (ascii ''Bien Hoa'', \<lparr>lat = 10.9470, lng = 106.8196,
        name = ascii ''Bi'' @ [234] @ ascii ''n H'' @ [242] @ ascii ''a''\<rparr>),
     (ascii ''Hue'', \<lparr>lat = 16.4637, lng = 107.5909,
        name = ascii ''Hu'' @ [7871]\<rparr>),
     (ascii ''Nha Trang'', \<lparr>lat = 12.2388, lng = 109.1967,
        name = ascii ''Nha Trang''\<rparr>),
     (ascii ''Buon Ma Thuot'', \<lparr>lat = 12.6675, lng = 108.0378,
        name = ascii ''Bu'' @ [244] @ ascii ''n Ma Thu'' @ [7897] @ ascii ''t''\<rparr>),
     (ascii ''Quy Nhon'', \<lparr>lat = 13.7830, lng = 109.2192,
        name = ascii ''Quy Nh'' @ [417] @ ascii ''n''\<rparr>),
     (ascii ''Vung Tau'', \<lparr>lat = 10.3460, lng = 107.0843,
        name = ascii ''V'' @ [361] @ ascii ''ng T'' @ [224] @ ascii ''u''\<rparr>),
     (ascii ''Thai Nguyen'', \<lparr>lat = 21.5670, lng = 105.8252,
        name = ascii ''Th'' @ [225] @ ascii ''i Nguy'' @ [234] @ ascii ''n''\<rparr>),
     (ascii ''Nam Dinh'', \<lparr>lat = 20.4388, lng = 106.1621,
        name = ascii ''Nam '' @ [272] @ [7883] @ ascii ''nh''\<rparr>),
     (ascii ''Vinh'', \<lparr>lat = 18.6796, lng = 105.6813,
        name = ascii ''Vinh''\<rparr>)]"


section \<open>The store\<close>

text \<open>
  The tables the claims are about.  A table is the list of its rows in insertion order;
  SQL gives that order no meaning, so statements about table contents are made on the
  multiset of rows wherever the order depends on Python's set iteration.
\<close>

record location_row =
  province :: pystr
  city :: pystr
  latitude :: rat
  longitude :: rat
  active_users_5min :: int
  active_users_30min :: int

record source_row =
  source :: pystr
  active_users :: int

record page_row =
  page_title :: pystr
  screen_name :: pystr
  views :: int

datatype date = Date (year: nat) (month: nat) (day: nat)

record daily_row =
  metric :: pystr
  report_type :: pystr
  insight_date :: date
  insight_value :: int

record post_row =
  post_id :: pystr
  post_message :: pystr
  post_type :: pystr
  created_time :: pystr
  post_impressions :: int
  post_impressions_unique :: int
  post_engaged_users :: int
  post_reactions :: int
  post_comments :: int
  post_shares :: int
  post_clicks :: int
  video_views :: int
  updated_at :: "nat option"

record db =
  user_by_location :: "location_row list"
  user_by_source :: "source_row list"
  views_by_page :: "page_row list"
  facebook_page_insights_daily :: "daily_row list"
  facebook_post_insights :: "post_row list"

text \<open>
  A psycopg2 connection (autocommit off): \<open>committed\<close> is what every other session reads,
  \<open>working\<close> is what the open transaction sees, \<open>calls\<close> counts the statements sent so
  far.  PostgreSQL runs \<open>TRUNCATE\<close> inside the transaction like any other statement.

  The store may fail: \<open>connect_fault\<close> is the message of the error \<open>psycopg2.connect\<close>
  raises, if it does; \<open>stmt_fault n\<close> is the message of the error the \<open>n\<close>-th call on the
  connection (an \<open>execute\<close> or the \<open>commit\<close>) raises, if it does.
\<close>

record conn =
  committed :: db
  working :: db
  calls :: nat

record faults =
  connect_fault :: "pystr option"
  stmt_fault :: "nat \<Rightarrow> pystr option"

definition no_faults :: faults where
  "no_faults = \<lparr>connect_fault = None, stmt_fault = (\<lambda>n. None)\<rparr>"

definition get_db_connection :: "faults \<Rightarrow> db \<Rightarrow> exn + conn" where
  "get_db_connection F d =
     (case connect_fault F of
        Some msg \<Rightarrow> Inl (StoreError msg)
      | None \<Rightarrow> Inr \<lparr>committed = d, working = d, calls = 0\<rparr>)"

definition execute :: "faults \<Rightarrow> (db \<Rightarrow> db) \<Rightarrow> conn \<Rightarrow> exn option \<times> conn" where
  "execute F stmt c =
     (case stmt_fault F (calls c) of
        Some msg \<Rightarrow> (Some (StoreError msg), c\<lparr>calls := Suc (calls c)\<rparr>)
      | None \<Rightarrow> (None, c\<lparr>working := stmt (working c), calls := Suc (calls c)\<rparr>))"

definition commit :: "faults \<Rightarrow> conn \<Rightarrow> exn option \<times> conn" where
  "commit F c =
     (case stmt_fault F (calls c) of
        Some msg \<Rightarrow> (Some (StoreError msg), c\<lparr>calls := Suc (calls c)\<rparr>)
      | None \<Rightarrow> (None, c\<lparr>committed := working c, calls := Suc (calls c)\<rparr>))"

definition rollback :: "conn \<Rightarrow> conn" where
  "rollback c = c\<lparr>working := committed c\<rparr>"

text \<open>
  Sequencing of two steps on a connection: when the first step raised, its exception
  leaves and the second step does not run.
\<close>

definition and_then ::
  "exn option \<times> conn \<Rightarrow> (conn \<Rightarrow> exn option \<times> conn) \<Rightarrow> exn option \<times> conn" where
  "and_then r k = (case fst r of None \<Rightarrow> k (snd r) | Some e \<Rightarrow> r)"


subsection \<open>The statements of \<open>save_to_database\<close>\<close>

definition truncate_realtime :: "db \<Rightarrow> db" where
  "truncate_realtime d = d\<lparr>user_by_location := [], user_by_source := [], views_by_page := []\<rparr>"

definition insert_user_by_location :: "location_row \<Rightarrow> db \<Rightarrow> db" where
  "insert_user_by_location r d = d\<lparr>user_by_location := user_by_location d @ [r]\<rparr>"

definition insert_user_by_source :: "source_row \<Rightarrow> db \<Rightarrow> db" where
  "insert_user_by_source r d = d\<lparr>user_by_source := user_by_source d @ [r]\<rparr>"

definition insert_views_by_page :: "page_row \<Rightarrow> db \<Rightarrow> db" where
  "insert_views_by_page r d = d\<lparr>views_by_page := views_by_page d @ [r]\<rparr>"


subsection \<open>\<open>save_to_database\<close>\<close>

text \<open>
  Every loop over report rows starts with the same two lines: \<open>[0]\<close> on an empty
  repeated field raises \<open>IndexError\<close>, \<open>int()\<close> on a non-numeric string raises
  \<open>ValueError\<close>; the dimension is read first.
\<close>

definition row_pair :: "ga4_row \<Rightarrow> exn + pystr \<times> int" where
  "row_pair row =
     (case dimension_values row of
        [] \<Rightarrow> Inl IndexError
      | dv # _ \<Rightarrow>
          (case metric_values row of
             [] \<Rightarrow> Inl IndexError
           | NonIntText # _ \<Rightarrow> Inl ValueError
           | IntText n # _ \<Rightarrow> Inr (dv, n)))"

text \<open>
  The two loops that fill \<open>users_5min_dict\<close> and \<open>users_30min_dict\<close>: a city that
  comes twice keeps the later count.
\<close>

fun build_dict :: "ga4_row list \<Rightarrow> int pydict \<Rightarrow> exn + int pydict" where
  "build_dict [] d = Inr d"
| "build_dict (row # rows) d =
     (case row_pair row of
        Inl e \<Rightarrow> Inl e
      | Inr (cty, users) \<Rightarrow> build_dict rows (AList.update cty users d))"

text \<open>
  \<open>all_cities = set(users_5min_dict.keys()) | set(users_30min_dict.keys())\<close>.  The order
  in which Python iterates over a set of strings is fixed by their hashes, which differ
  from one process to the next; the parameter \<open>h\<close> stands for that order, so that every
  enumeration of the set is the model's enumeration for some \<open>h\<close>.
\<close>

definition all_cities :: "(pystr \<Rightarrow> nat) \<Rightarrow> int pydict \<Rightarrow> int pydict \<Rightarrow> pystr list" where
  "all_cities h users_5min_dict users_30min_dict =
     sort_key h (remdups (dict_keys users_5min_dict @ dict_keys users_30min_dict))"

definition location_row_of :: "int pydict \<Rightarrow> int pydict \<Rightarrow> pystr \<Rightarrow> city_info \<Rightarrow> location_row" where
  "location_row_of users_5min_dict users_30min_dict cty info =
     \<lparr>province = name info, city = cty, latitude = lat info, longitude = lng info,
      active_users_5min = dict_get users_5min_dict cty 0,
      active_users_30min = dict_get users_30min_dict cty 0\<rparr>"

fun insert_locations ::
  "faults \<Rightarrow> int pydict \<Rightarrow> int pydict \<Rightarrow> pystr list \<Rightarrow> conn \<Rightarrow> exn option \<times> conn" where
  "insert_locations F d5 d30 [] c = (None, c)"
| "insert_locations F d5 d30 (cty # rest) c =
     (case map_of VIETNAM_CITIES cty of
        None \<Rightarrow> insert_locations F d5 d30 rest c
      | Some info \<Rightarrow>
          and_then (execute F (insert_user_by_location (location_row_of d5 d30 cty info)) c)
            (\<lambda>c'. insert_locations F d5 d30 rest c'))"

fun insert_devices :: "faults \<Rightarrow> ga4_row list \<Rightarrow> conn \<Rightarrow> exn option \<times> conn" where
  "insert_devices F [] c = (None, c)"
| "insert_devices F (row # rows) c =
     (case row_pair row of
        Inl e \<Rightarrow> (Some e, c)
      | Inr (device, users) \<Rightarrow>
          and_then
            (execute F (insert_user_by_source \<lparr>source = device, active_users = users\<rparr>) c)
            (\<lambda>c'. insert_devices F rows c'))"

fun insert_pages :: "faults \<Rightarrow> ga4_row list \<Rightarrow> conn \<Rightarrow> exn option \<times> conn" where
  "insert_pages F [] c = (None, c)"
| "insert_pages F (row # rows) c =
     (case row_pair row of
        Inl e \<Rightarrow> (Some e, c)
      | Inr (page_name, n) \<Rightarrow>
          and_then
            (execute F (insert_views_by_page
               \<lparr>page_title = page_name, screen_name = page_name, views = n\<rparr>) c)
            (\<lambda>c'. insert_pages F rows c'))"

text \<open>The body of the \<open>try\<close> block, from the \<open>TRUNCATE\<close> to \<open>conn.commit()\<close>.\<close>

definition save_to_database_try ::
  "faults \<Rightarrow> (pystr \<Rightarrow> nat) \<Rightarrow> ga4_data \<Rightarrow> conn \<Rightarrow> exn option \<times> conn" where
  "save_to_database_try F h data c0 =
     and_then (execute F truncate_realtime c0) (\<lambda>c1.
       case build_dict (users_5min data) [] of
         Inl e \<Rightarrow> (Some e, c1)
       | Inr d5 \<Rightarrow>
      (case build_dict (users_30min data) [] of
         Inl e \<Rightarrow> (Some e, c1)
       | Inr d30 \<Rightarrow>
           and_then (insert_locations F d5 d30 (all_cities h d5 d30) c1) (\<lambda>c2.
           and_then (insert_devices F (by_device data) c2) (\<lambda>c3.
           and_then (insert_pages F (by_page data) c3) (\<lambda>c4.
           commit F c4)))))"

text \<open>
  \<open>save_to_database\<close>: the exception it raises, if any, and the committed store it
  leaves.  The connection is opened before the \<open>try\<close>; the \<open>except\<close> clause rolls back
  and re-raises.
\<close>

definition save_to_database ::
  "faults \<Rightarrow> (pystr \<Rightarrow> nat) \<Rightarrow> ga4_data \<Rightarrow> db \<Rightarrow> exn option \<times> db" where
  "save_to_database F h data d =
     (case get_db_connection F d of
        Inl e \<Rightarrow> (Some e, d)
      | Inr c0 \<Rightarrow>
          (let (raised, c) = save_to_database_try F h data c0 in
           case raised of
             None \<Rightarrow> (None, committed c)
           | Some e \<Rightarrow> (Some e, committed (rollback c))))"

text \<open>
  The two callers that make up a realtime cycle: \<open>refresh_data\<close> (the route
  \<open>/api/refresh\<close>) and \<open>sync_job\<close> (auto\_sync.py).  Both fetch first and write only
  when the fetch returned; \<open>refresh_data\<close> answers \<open>{status: success}\<close> or, with
  HTTP status 500, \<open>{status: error, message: str(e)}\<close>, \<open>sync_job\<close> logs the exception.
\<close>

datatype refresh_response = Refresh_success | Refresh_error exn

definition refresh_data ::
  "faults \<Rightarrow> (pystr \<Rightarrow> nat) \<Rightarrow> exn + ga4_row list \<Rightarrow> exn + ga4_row list
     \<Rightarrow> exn + ga4_row list \<Rightarrow> exn + ga4_row list \<Rightarrow> db \<Rightarrow> refresh_response \<times> db" where
  "refresh_data F h response_5min response_30min response_device response_page d =
     (case fetch_ga4_realtime_data response_5min response_30min response_device response_page of
        Inl e \<Rightarrow> (Refresh_error e, d)
      | Inr ga4_data \<Rightarrow>
          (let (raised, d') = save_to_database F h ga4_data d in
           case raised of
             Some e \<Rightarrow> (Refresh_error e, d')
           | None \<Rightarrow> (Refresh_success, d')))"

definition sync_job ::
  "faults \<Rightarrow> (pystr \<Rightarrow> nat) \<Rightarrow> exn + ga4_row list \<Rightarrow> exn + ga4_row list
     \<Rightarrow> exn + ga4_row list \<Rightarrow> exn + ga4_row list \<Rightarrow> db \<Rightarrow> db" where
  "sync_job F h response_5min response_30min response_device response_page d =
     (case fetch_ga4_realtime_data response_5min response_30min response_device response_page of
        Inl e \<Rightarrow> d
      | Inr ga4_data \<Rightarrow> snd (save_to_database F h ga4_data d))"


section \<open>Daily page insights (fetch\_facebook\_data\_with\_refresh.py)\<close>

text \<open>
  One element of the \<open>data\<close> array of the insights reply.  \<open>block_name\<close> is
  \<open>metric_block["name"]\<close> (\<open>None\<close>: no such key, a \<open>KeyError\<close>); \<open>block_values\<close> is
  \<open>metric_block.get("values", [])\<close>.  In an entry, \<open>end_time\<close> is what
  \<open>datetime.fromisoformat(entry["end_time"].replace("Z", "+00:00")).date()\<close> evaluates
  to: the calendar date, or the exception (\<open>KeyError\<close> without the key, \<open>ValueError\<close> for
  a string that does not parse); \<open>entry_value\<close> is the value under \<open>"value"\<close>, if any.
\<close>

record insight_entry =
  end_time :: "exn + date"
  entry_value :: "int option"

record metric_block =
  block_name :: "pystr option"
  block_values :: "insight_entry list"

definition METRICS :: "pystr pydict" where
  "METRICS =
     [(ascii ''page_views_total'', ascii ''Visits''),
      (ascii ''page_media_view'', ascii ''Views''),
      (ascii ''page_impressions_unique'', ascii ''Viewers''),
      (ascii ''page_daily_follows'', ascii ''Follows'')]"

text \<open>
  \<open>INSERT INTO facebook_page_insights_daily ... ON CONFLICT (metric, date) DO UPDATE SET
  value = EXCLUDED.value\<close>.  PostgreSQL accepts the statement only with a unique index on
  \<open>(metric, date)\<close>, so at most one row conflicts; that row keeps its \<open>report_type\<close>.
\<close>

fun upsert_daily_insight :: "daily_row \<Rightarrow> daily_row list \<Rightarrow> daily_row list" where
  "upsert_daily_insight new [] = [new]"
| "upsert_daily_insight new (r # rs) =
     (if metric r = metric new \<and> insight_date r = insight_date new
      then r\<lparr>insight_value := insight_value new\<rparr> # rs
      else r # upsert_daily_insight new rs)"

definition insert_daily_insight :: "daily_row \<Rightarrow> db \<Rightarrow> db" where
  "insert_daily_insight new d =
     d\<lparr>facebook_page_insights_daily := upsert_daily_insight new (facebook_page_insights_daily d)\<rparr>"

text \<open>The inner loop, over the entries of one metric block.\<close>

fun save_entries ::
  "faults \<Rightarrow> pystr \<Rightarrow> pystr \<Rightarrow> insight_entry list \<Rightarrow> conn \<Rightarrow> exn option \<times> conn" where
  "save_entries F metric_name rtype [] c = (None, c)"
| "save_entries F metric_name rtype (entry # entries) c =
     (case end_time entry of
        Inl e \<Rightarrow> (Some e, c)
      | Inr date_value \<Rightarrow>
          and_then
            (execute F (insert_daily_insight
               \<lparr>metric = metric_name, report_type = rtype, insight_date = date_value,
                insight_value = (case entry_value entry of None \<Rightarrow> 0 | Some v \<Rightarrow> v)\<rparr>) c)
            (\<lambda>c'. save_entries F metric_name rtype entries c'))"

text \<open>The outer loop, over \<open>insights_data\<close>.\<close>

fun save_blocks :: "faults \<Rightarrow> metric_block list \<Rightarrow> conn \<Rightarrow> exn option \<times> conn" where
  "save_blocks F [] c = (None, c)"
| "save_blocks F (metric_block # blocks) c =
     (case block_name metric_block of
        None \<Rightarrow> (Some KeyError, c)
      | Some metric_name \<Rightarrow>
          and_then
            (save_entries F metric_name (dict_get METRICS metric_name (ascii ''Unknown''))
               (block_values metric_block) c)
            (\<lambda>c'. save_blocks F blocks c'))"

text \<open>
  The store part of \<open>fetch_facebook_insights\<close>, from \<open>psycopg2.connect\<close> to the
  \<open>return True\<close> after the commit.  Every exception is caught by \<open>except Exception\<close>,
  which returns \<open>False\<close> without a commit: the transaction ends with the connection and
  the committed store stays as it was.
\<close>

definition store_insights :: "faults \<Rightarrow> metric_block list \<Rightarrow> db \<Rightarrow> bool \<times> db" where
  "store_insights F insights_data d =
     (case get_db_connection F d of
        Inl e \<Rightarrow> (False, d)
      | Inr c0 \<Rightarrow>
          (let (raised, c) = and_then (save_blocks F insights_data c0) (\<lambda>c'. commit F c') in
           case raised of
             None \<Rightarrow> (True, committed c)
           | Some e \<Rightarrow> (False, committed c)))"


section \<open>Post insights (facebook\_api.py, save\_facebook\_data.py)\<close>

text \<open>
  The value of an insight: a number, or an object of numbers keyed by reaction type.
\<close>

datatype metric_value = Number int | ByType "int pydict"

text \<open>
  An element of \<open>post['insights']\<close>: \<open>insight_name\<close> is \<open>insight['name']\<close> (\<open>None\<close>: no
  such key); \<open>insight_values\<close> is \<open>insight.get('values', [])\<close>, each element given by
  the value under its key \<open>'value'\<close>, if any.
\<close>

record raw_insight =
  insight_name :: "pystr option"
  insight_values :: "metric_value option list"

text \<open>A post as \<open>format_posts_for_database\<close> reads it; \<open>None\<close> is an absent key.\<close>

record raw_post =
  raw_id :: "pystr option"
  raw_message :: "pystr option"
  raw_type :: "pystr option"
  raw_created_time :: "pystr option"
  raw_insights :: "raw_insight list option"
  raw_comments :: "int option"
  raw_shares :: "int option"

record formatted_post =
  fmt_post_id :: pystr
  fmt_post_message :: pystr
  fmt_post_type :: pystr
  fmt_created_time :: pystr
  fmt_post_impressions :: metric_value
  fmt_post_impressions_unique :: metric_value
  fmt_post_engaged_users :: metric_value
  fmt_post_reactions :: metric_value
  fmt_post_comments :: int
  fmt_post_shares :: int
  fmt_post_clicks :: metric_value
  fmt_video_views :: int

definition or_default :: "'a option \<Rightarrow> 'a \<Rightarrow> 'a" where
  "or_default v dflt = (case v of None \<Rightarrow> dflt | Some x \<Rightarrow> x)"

text \<open>The loop that fills \<open>insights_dict\<close> for one post.\<close>

fun parse_insights :: "raw_insight list \<Rightarrow> metric_value pydict \<Rightarrow> exn + metric_value pydict" where
  "parse_insights [] insights_dict = Inr insights_dict"
| "parse_insights (insight # rest) insights_dict =
     (case insight_name insight of
        None \<Rightarrow> Inl KeyError
      | Some metric_name \<Rightarrow>
          (case insight_values insight of
             [] \<Rightarrow> parse_insights rest insights_dict
           | v # _ \<Rightarrow>
               (if metric_name = ascii ''post_reactions_by_type_total''
                then (case or_default v (Number 0) of
                        ByType by_type \<Rightarrow>
                          parse_insights rest
                            (AList.update (ascii ''post_reactions'')
                               (Number (sum_list (map snd by_type))) insights_dict)
                      | Number _ \<Rightarrow>
                          parse_insights rest
                            (AList.update (ascii ''post_reactions'') (Number 0) insights_dict))
                else parse_insights rest
                       (AList.update metric_name (or_default v (Number 0)) insights_dict))))"

definition format_post :: "raw_post \<Rightarrow> exn + formatted_post" where
  "format_post post =
     (case parse_insights (or_default (raw_insights post) []) [] of
        Inl e \<Rightarrow> Inl e
      | Inr insights_dict \<Rightarrow>
          (case raw_id post of
             None \<Rightarrow> Inl KeyError
           | Some post_ident \<Rightarrow>
               Inr \<lparr>fmt_post_id = post_ident,
                    fmt_post_message = take 500 (or_default (raw_message post) []),
                    fmt_post_type = or_default (raw_type post) [],
                    fmt_created_time = or_default (raw_created_time post) [],
                    fmt_post_impressions =
                      dict_get insights_dict (ascii ''post_impressions'') (Number 0),
                    fmt_post_impressions_unique =
                      dict_get insights_dict (ascii ''post_impressions_unique'') (Number 0),
                    fmt_post_engaged_users =
                      dict_get insights_dict (ascii ''post_engaged_users'') (Number 0),
                    fmt_post_reactions =
                      dict_get insights_dict (ascii ''post_reactions'') (Number 0),
                    fmt_post_comments = or_default (raw_comments post) 0,
                    fmt_post_shares = or_default (raw_shares post) 0,
                    fmt_post_clicks = dict_get insights_dict (ascii ''post_clicks'') (Number 0),
                    fmt_video_views = 0\<rparr>))"

fun format_posts_for_database :: "raw_post list \<Rightarrow> exn + formatted_post list" where
  "format_posts_for_database [] = Inr []"
| "format_posts_for_database (post # posts_data) =
     (case format_post post of
        Inl e \<Rightarrow> Inl e
      | Inr formatted \<Rightarrow>
          (case format_posts_for_database posts_data of
             Inl e \<Rightarrow> Inl e
           | Inr formatted_posts \<Rightarrow> Inr (formatted # formatted_posts)))"

text \<open>
  The statement of \<open>save_post_insights\<close>.  psycopg2 cannot pass a dict as a query
  parameter and raises before the statement reaches the server.  A new row takes
  \<open>updated_at\<close> from the column default, which the schema (not part of the sources) fixes:
  the parameter \<open>dflt\<close>; a conflicting row keeps message, type and creation time and takes
  the measured fields and \<open>CURRENT_TIMESTAMP\<close>, the parameter \<open>now\<close>.
\<close>

definition adapt :: "metric_value \<Rightarrow> exn + int" where
  "adapt v =
     (case v of
        Number n \<Rightarrow> Inr n
      | ByType _ \<Rightarrow> Inl (StoreError (ascii ''can't adapt type 'dict'')))"

record post_measures =
  m_impressions :: int
  m_impressions_unique :: int
  m_engaged_users :: int
  m_reactions :: int
  m_clicks :: int

definition adapt_post :: "formatted_post \<Rightarrow> exn + post_measures" where
  "adapt_post post =
     (case adapt (fmt_post_impressions post) of Inl e \<Rightarrow> Inl e | Inr i \<Rightarrow>
     (case adapt (fmt_post_impressions_unique post) of Inl e \<Rightarrow> Inl e | Inr iu \<Rightarrow>
     (case adapt (fmt_post_engaged_users post) of Inl e \<Rightarrow> Inl e | Inr eu \<Rightarrow>
     (case adapt (fmt_post_reactions post) of Inl e \<Rightarrow> Inl e | Inr re \<Rightarrow>
     (case adapt (fmt_post_clicks post) of Inl e \<Rightarrow> Inl e | Inr cl \<Rightarrow>
        Inr \<lparr>m_impressions = i, m_impressions_unique = iu, m_engaged_users = eu,
             m_reactions = re, m_clicks = cl\<rparr>)))))"

fun upsert_post_insight ::
  "nat \<Rightarrow> nat option \<Rightarrow> formatted_post \<Rightarrow> post_measures \<Rightarrow> post_row list \<Rightarrow> post_row list" where
  "upsert_post_insight now dflt post m [] =
     [\<lparr>post_id = fmt_post_id post, post_message = fmt_post_message post,
       post_type = fmt_post_type post, created_time = fmt_created_time post,
       post_impressions = m_impressions m,
       post_impressions_unique = m_impressions_unique m,
       post_engaged_users = m_engaged_users m,
       post_reactions = m_reactions m,
       post_comments = fmt_post_comments post, post_shares = fmt_post_shares post,
       post_clicks = m_clicks m, video_views = fmt_video_views post,
       updated_at = dflt\<rparr>]"
| "upsert_post_insight now dflt post m (r # rs) =
     (if post_id r = fmt_post_id post
      then r\<lparr>post_impressions := m_impressions m,
             post_impressions_unique := m_impressions_unique m,
             post_engaged_users := m_engaged_users m,
             post_reactions := m_reactions m,
             post_comments := fmt_post_comments post,
             post_shares := fmt_post_shares post,
             post_clicks := m_clicks m,
             video_views := fmt_video_views post,
             updated_at := Some now\<rparr> # rs
      else r # upsert_post_insight now dflt post m rs)"

definition insert_post_insight ::
  "nat \<Rightarrow> nat option \<Rightarrow> formatted_post \<Rightarrow> post_measures \<Rightarrow> db \<Rightarrow> db" where
  "insert_post_insight now dflt post m d =
     d\<lparr>facebook_post_insights := upsert_post_insight now dflt post m (facebook_post_insights d)\<rparr>"

fun save_posts ::
  "faults \<Rightarrow> nat \<Rightarrow> nat option \<Rightarrow> formatted_post list \<Rightarrow> conn \<Rightarrow> exn option \<times> conn" where
  "save_posts F now dflt [] c = (None, c)"
| "save_posts F now dflt (post # posts) c =
     (case adapt_post post of
        Inl e \<Rightarrow> (Some e, c)
      | Inr m \<Rightarrow>
          and_then (execute F (insert_post_insight now dflt post m) c)
            (\<lambda>c'. save_posts F now dflt posts c'))"

text \<open>
  \<open>save_post_insights\<close>: nothing to do for an empty list; otherwise the loop and the
  commit in a \<open>try\<close> whose \<open>except\<close> clause rolls back and re-raises.
\<close>

definition save_post_insights ::
  "faults \<Rightarrow> nat \<Rightarrow> nat option \<Rightarrow> formatted_post list \<Rightarrow> db \<Rightarrow> exn option \<times> db" where
  "save_post_insights F now dflt posts_data d =
     (if posts_data = [] then (None, d)
      else
        (case get_db_connection F d of
           Inl e \<Rightarrow> (Some e, d)
         | Inr c0 \<Rightarrow>
             (let (raised, c) =
                    and_then (save_posts F now dflt posts_data c0) (\<lambda>c'. commit F c') in
              case raised of
                None \<Rightarrow> (None, committed c)
              | Some e \<Rightarrow> (Some e, committed (rollback c)))))"

text \<open>
  Steps 7 and 8 of \<open>fetch_and_save_all_facebook_data\<close>: the posts fetched from the page
  are formatted, then saved; an exception of either step leaves the cycle.
\<close>

definition sync_posts ::
  "faults \<Rightarrow> nat \<Rightarrow> nat option \<Rightarrow> raw_post list \<Rightarrow> db \<Rightarrow> exn option \<times> db" where
  "sync_posts F now dflt posts_raw d =
     (case format_posts_for_database posts_raw of
        Inl e \<Rightarrow> (Some e, d)
      | Inr posts_formatted \<Rightarrow> save_post_insights F now dflt posts_formatted d)"


section \<open>The page access token (refresh\_facebook\_token.py)\<close>

text \<open>
  The Graph API is an oracle.  A call made with \<open>requests.get\<close> either raises, or
  answers with a status other than 200, or answers 200 with a JSON body.
\<close>

datatype 'a http = Raised exn | Status_error | Ok 'a

text \<open>
  The \<open>data\<close> object of a \<open>debug_token\<close> reply, as far as the code reads it:
  \<open>is_valid\<close> is the truth value of \<open>data.get("is_valid")\<close> (false for an absent key,
  so also for the empty object), \<open>expires_at\<close> the number under that key, if any.
\<close>

record token_info =
  is_valid :: bool
  expires_at :: "int option"

text \<open>An element of the \<open>data\<close> array of \<open>me/accounts\<close>; \<open>None\<close> is an absent key.\<close>

record fb_page =
  page_name :: "pystr option"
  page_ident :: "pystr option"
  page_access_token :: "pystr option"

datatype env_key = USER_ACCESS_TOKEN | PAGE_ACCESS_TOKEN

text \<open>
  What the token manager meets outside the process: the three endpoints, and whether
  \<open>set_key\<close> raises when it writes a key of the \<open>.env\<close> file.  \<open>oauth_access_token\<close>
  gives the \<open>access_token\<close> of the reply, if it has one.
\<close>

record world =
  debug_token :: "pystr \<Rightarrow> token_info http"
  oauth_access_token :: "pystr \<Rightarrow> pystr option http"
  me_accounts :: "pystr option \<Rightarrow> fb_page list http"
  set_key_raises :: "env_key \<Rightarrow> bool"

text \<open>
  The keys of the \<open>.env\<close> file the token code reads and writes.  Every read is preceded
  by \<open>load_dotenv(ENV_FILE, override=True)\<close>, so the file and \<open>os.environ\<close> are one store.
\<close>

record env =
  FACEBOOK_PAGE_ACCESS_TOKEN :: "pystr option"
  FACEBOOK_USER_ACCESS_TOKEN :: "pystr option"
  FACEBOOK_PAGE_ID :: "pystr option"

text \<open>The lines printed that tell the branches apart; detail lines are left out.\<close>

datatype line =
    Using_existing_never_expires
  | Using_existing_expires_later
  | Token_expires_soon
  | Refreshing_access_token
  | Exchange_failed_continuing
  | User_token_invalid
  | Failed_to_get_page_token
  | Token_refresh_complete
  | Refreshed_token_verified
  | Refreshed_token_invalid
  | No_new_token_in_env
  | Token_refresh_failed

text \<open>Python's truth value of a string that may be \<open>None\<close>.\<close>

definition truthy :: "pystr option \<Rightarrow> bool" where
  "truthy v = (case v of None \<Rightarrow> False | Some s \<Rightarrow> s \<noteq> [])"

record manager =
  user_token :: "pystr option"
  page_id :: "pystr option"

definition FacebookTokenManager :: "env \<Rightarrow> manager" where
  "FacebookTokenManager e =
     \<lparr>user_token = FACEBOOK_USER_ACCESS_TOKEN e, page_id = FACEBOOK_PAGE_ID e\<rparr>"

definition exchange_for_long_lived_token :: "world \<Rightarrow> pystr \<Rightarrow> exn + pystr option" where
  "exchange_for_long_lived_token w short_lived_token =
     (case oauth_access_token w short_lived_token of
        Raised x \<Rightarrow> Inl x
      | Status_error \<Rightarrow> Inr None
      | Ok long_lived_token \<Rightarrow> Inr long_lived_token)"

text \<open>
  The loop of \<open>get_page_access_token\<close>: the print reads \<open>page['name']\<close> and
  \<open>page['id']\<close> of every page it passes, the match reads \<open>page['access_token']\<close>.
\<close>

fun find_page :: "pystr option \<Rightarrow> fb_page list \<Rightarrow> exn + pystr option" where
  "find_page pid [] = Inr None"
| "find_page pid (page # pages) =
     (case page_name page of
        None \<Rightarrow> Inl KeyError
      | Some _ \<Rightarrow>
          (case page_ident page of
             None \<Rightarrow> Inl KeyError
           | Some i \<Rightarrow>
               if Some i = pid
               then (case page_access_token page of
                       None \<Rightarrow> Inl KeyError
                     | Some page_token \<Rightarrow> Inr (Some page_token))
               else find_page pid pages))"

definition get_page_access_token :: "world \<Rightarrow> manager \<Rightarrow> exn + pystr option" where
  "get_page_access_token w mgr =
     (case me_accounts w (user_token mgr) of
        Raised x \<Rightarrow> Inl x
      | Status_error \<Rightarrow> Inr None
      | Ok pages \<Rightarrow> find_page (page_id mgr) pages)"

definition verify_token :: "world \<Rightarrow> pystr \<Rightarrow> exn + token_info option" where
  "verify_token w token =
     (case debug_token w token of
        Raised x \<Rightarrow> Inl x
      | Status_error \<Rightarrow> Inr None
      | Ok data \<Rightarrow> Inr (Some data))"

text \<open>\<open>token_info and token_info.get("is_valid")\<close>\<close>

definition reports_valid :: "token_info option \<Rightarrow> bool" where
  "reports_valid token_info = (case token_info of None \<Rightarrow> False | Some data \<Rightarrow> is_valid data)"

text \<open>\<open>token_info.get("expires_at", 0)\<close>, read only after \<open>reports_valid\<close>.\<close>

definition expiry :: "token_info option \<Rightarrow> int" where
  "expiry token_info =
     (case token_info of
        None \<Rightarrow> 0
      | Some data \<Rightarrow> (case expires_at data of None \<Rightarrow> 0 | Some t \<Rightarrow> t))"

text \<open>\<open>update_env_file\<close> catches what \<open>set_key\<close> raises and goes on.\<close>

definition update_env_file :: "world \<Rightarrow> env_key \<Rightarrow> pystr \<Rightarrow> env \<Rightarrow> env" where
  "update_env_file w key v e =
     (if set_key_raises w key then e
      else (case key of
              USER_ACCESS_TOKEN \<Rightarrow> e\<lparr>FACEBOOK_USER_ACCESS_TOKEN := Some v\<rparr>
            | PAGE_ACCESS_TOKEN \<Rightarrow> e\<lparr>FACEBOOK_PAGE_ACCESS_TOKEN := Some v\<rparr>))"

text \<open>
  Step 2 of \<open>refresh_tokens\<close>: the page token is fetched with the manager's user token,
  written to the file and introspected once for the printout; whatever the
  introspection reports, the step returns \<open>True\<close>.  The result is what
  \<open>refresh_tokens\<close> returns or raises, the \<open>.env\<close> file, and the lines printed.
\<close>

definition refresh_page_token ::
  "world \<Rightarrow> manager \<Rightarrow> env \<Rightarrow> line list \<Rightarrow> (exn + bool) \<times> env \<times> line list" where
  "refresh_page_token w mgr e printed =
     (case get_page_access_token w mgr of
        Inl x \<Rightarrow> (Inl x, e, printed)
      | Inr None \<Rightarrow> (Inr False, e, printed @ [Failed_to_get_page_token])
      | Inr (Some page_token) \<Rightarrow>
          if page_token = [] then (Inr False, e, printed @ [Failed_to_get_page_token])
          else
            (case verify_token w page_token of
               Inl x \<Rightarrow> (Inl x, update_env_file w PAGE_ACCESS_TOKEN page_token e, printed)
             | Inr page_token_info \<Rightarrow>
                 (Inr True, update_env_file w PAGE_ACCESS_TOKEN page_token e,
                  printed @ [Token_refresh_complete])))"

text \<open>
  \<open>refresh_tokens\<close>.  Step 1 runs when a user token is set: an invalid user token ends
  the refresh with \<open>False\<close>; a valid one with less than 7 days left is exchanged, and when
  the exchange gives no token the code prints that it continues with the current one.
  \<open>now\<close> is \<open>datetime.now().timestamp()\<close>, taken as an exact number of seconds.
\<close>

definition refresh_tokens ::
  "world \<Rightarrow> rat \<Rightarrow> manager \<Rightarrow> env \<Rightarrow> (exn + bool) \<times> env \<times> line list" where
  "refresh_tokens w now mgr e =
     (case user_token mgr of
        None \<Rightarrow> refresh_page_token w mgr e []
      | Some tok \<Rightarrow>
          if tok = [] then refresh_page_token w mgr e []
          else
            (case verify_token w tok of
               Inl x \<Rightarrow> (Inl x, e, [])
             | Inr token_info \<Rightarrow>
                 if reports_valid token_info then
                   (if (of_int (expiry token_info) - now) / 86400 < 7 then
                      (case exchange_for_long_lived_token w tok of
                         Inl x \<Rightarrow> (Inl x, e, [])
                       | Inr long_lived_token \<Rightarrow>
                           (case long_lived_token of
                              None \<Rightarrow> refresh_page_token w mgr e [Exchange_failed_continuing]
                            | Some long \<Rightarrow>
                                if long = []
                                then refresh_page_token w mgr e [Exchange_failed_continuing]
                                else refresh_page_token w (mgr\<lparr>user_token := Some long\<rparr>)
                                       (update_env_file w USER_ACCESS_TOKEN long e) []))
                    else refresh_page_token w mgr e [])
                 else (Inr False, e, [User_token_invalid])))"


section \<open>\<open>get_valid_page_token\<close> (fetch\_facebook\_data\_with\_refresh.py)\<close>

text \<open>
  The second half of \<open>get_valid_page_token\<close>, from the comment ``Token invalid or
  expiring soon - refresh'': a new manager runs \<open>refresh_tokens\<close>; when that returns
  \<open>True\<close> the page token is read back from the \<open>.env\<close> file and introspected, and it is
  returned only when the introspection reports it valid.  \<open>printed\<close> holds the lines
  printed before.
\<close>

definition refresh_and_verify ::
  "world \<Rightarrow> rat \<Rightarrow> env \<Rightarrow> line list \<Rightarrow> (exn + pystr option) \<times> env \<times> line list" where
  "refresh_and_verify w now e printed =
     (let (refreshed, e', ls) = refresh_tokens w now (FacebookTokenManager e) e;
          so_far = printed @ [Refreshing_access_token] @ ls in
      case refreshed of
        Inl x \<Rightarrow> (Inl x, e', so_far)
      | Inr False \<Rightarrow> (Inr None, e', so_far @ [Token_refresh_failed])
      | Inr True \<Rightarrow>
          (case FACEBOOK_PAGE_ACCESS_TOKEN e' of
             None \<Rightarrow> (Inr None, e', so_far @ [No_new_token_in_env])
           | Some new_token \<Rightarrow>
               if new_token = [] then (Inr None, e', so_far @ [No_new_token_in_env])
               else
                 (case verify_token w new_token of
                    Inl x \<Rightarrow> (Inl x, e', so_far)
                  | Inr token_info \<Rightarrow>
                      if reports_valid token_info
                      then (Inr (Some new_token), e', so_far @ [Refreshed_token_verified])
                      else (Inr None, e', so_far @ [Refreshed_token_invalid]))))"

text \<open>
  \<open>get_valid_page_token\<close>: what it returns (\<open>Inr None\<close> is Python's \<open>None\<close>) or raises,
  the \<open>.env\<close> file afterwards, and the lines printed.  \<open>now\<close> is the clock read by the
  expiry check, \<open>now_r\<close> the clock read later by \<open>refresh_tokens\<close>.
\<close>

definition get_valid_page_token ::
  "world \<Rightarrow> rat \<Rightarrow> rat \<Rightarrow> env \<Rightarrow> (exn + pystr option) \<times> env \<times> line list" where
  "get_valid_page_token w now now_r e =
     (case FACEBOOK_PAGE_ACCESS_TOKEN e of
        None \<Rightarrow> refresh_and_verify w now_r e []
      | Some current_token \<Rightarrow>
          if current_token = [] then refresh_and_verify w now_r e []
          else
            (case verify_token w current_token of
               Inl x \<Rightarrow> (Inl x, e, [])
             | Inr token_info \<Rightarrow>
                 if reports_valid token_info then
                   (if expiry token_info = 0
                    then (Inr (Some current_token), e, [Using_existing_never_expires])
                    else if of_int (expiry token_info) - now > 3600
                    then (Inr (Some current_token), e, [Using_existing_expires_later])
                    else refresh_and_verify w now_r e [Token_expires_soon])
                 else refresh_and_verify w now_r e []))"


section \<open>\<open>fetch_facebook_insights\<close> (fetch\_facebook\_data\_with\_refresh.py)\<close>







section \<open>The read endpoints (app.py)\<close>

text \<open>
  For a read the store is an oracle: a \<open>cursor.execute\<close> either raises a
  \<open>psycopg2.Error\<close> with a message or leaves a result set.  A view function either
  lets an exception out (\<open>Inl\<close>) or returns the value it hands to \<open>jsonify\<close> together
  with the HTTP status; \<open>Error_object e\<close> stands for the object \<open>{'error': str(e)}\<close>.
\<close>

datatype 'a query = Query_raises pystr | Rows "'a list"

datatype 'a body = Data 'a | Error_object exn

record active_users_reply =
  reply_users_5min :: int
  reply_users_30min :: int

record facebook_reply =
  fb_views :: int
  fb_viewers :: int
  fb_visits :: int
  fb_follows :: int

text \<open>
  \<open>cursor.execute(...)\<close> followed by \<open>cursor.fetchone()[0] or 0\<close> on a query of one
  column: without a row \<open>fetchone()\<close> is \<open>None\<close> and the subscript raises \<open>TypeError\<close>; an
  SQL \<open>NULL\<close> counts as 0.
\<close>

definition fetchone_or_0 :: "int option query \<Rightarrow> exn + int" where
  "fetchone_or_0 q =
     (case q of
        Query_raises msg \<Rightarrow> Inl (StoreError msg)
      | Rows [] \<Rightarrow> Inl TypeError
      | Rows (v # _) \<Rightarrow> Inr (case v of None \<Rightarrow> 0 | Some n \<Rightarrow> n))"

text \<open>\<open>cursor.execute(...)\<close> followed by \<open>cursor.fetchall()\<close>.\<close>

definition fetchall :: "'a query \<Rightarrow> exn + 'a list" where
  "fetchall q = (case q of Query_raises msg \<Rightarrow> Inl (StoreError msg) | Rows rows \<Rightarrow> Inr rows)"

text \<open>
  The views take the outcome of \<open>get_db_connection()\<close> (the message of the error, if it
  raises) and the outcomes of their queries, in the order they run.
\<close>

definition get_map_data ::
  "pystr option \<Rightarrow> location_row query \<Rightarrow> exn + location_row list body \<times> nat" where
  "get_map_data connect q =
     (case connect of
        Some msg \<Rightarrow> Inl (StoreError msg)
      | None \<Rightarrow> (case fetchall q of Inl e \<Rightarrow> Inl e | Inr rows \<Rightarrow> Inr (Data rows, 200)))"

definition get_active_users ::
  "pystr option \<Rightarrow> int option query \<Rightarrow> int option query
     \<Rightarrow> exn + active_users_reply body \<times> nat" where
  "get_active_users connect q_5m q_30m =
     (case connect of
        Some msg \<Rightarrow> Inl (StoreError msg)
      | None \<Rightarrow>
          (case fetchone_or_0 q_5m of
             Inl e \<Rightarrow> Inl e
           | Inr u5 \<Rightarrow>
               (case fetchone_or_0 q_30m of
                  Inl e \<Rightarrow> Inl e
                | Inr u30 \<Rightarrow>
                    Inr (Data \<lparr>reply_users_5min = u5, reply_users_30min = u30\<rparr>, 200))))"

definition get_users_by_source ::
  "pystr option \<Rightarrow> source_row query \<Rightarrow> exn + source_row list body \<times> nat" where
  "get_users_by_source connect q =
     (case connect of
        Some msg \<Rightarrow> Inl (StoreError msg)
      | None \<Rightarrow> (case fetchall q of Inl e \<Rightarrow> Inl e | Inr rows \<Rightarrow> Inr (Data rows, 200)))"

definition get_views_by_page ::
  "pystr option \<Rightarrow> page_row query \<Rightarrow> exn + page_row list body \<times> nat" where
  "get_views_by_page connect q =
     (case connect of
        Some msg \<Rightarrow> Inl (StoreError msg)
      | None \<Rightarrow> (case fetchall q of Inl e \<Rightarrow> Inl e | Inr rows \<Rightarrow> Inr (Data rows, 200)))"

text \<open>
  \<open>get_facebook_insights\<close> opens the connection before its \<open>try\<close>; the four queries
  (Views, Viewers, Visits, Follows) run inside it, and \<open>except Exception\<close> answers
  \<open>{'error': str(e)}\<close> with status 500.
\<close>

definition get_facebook_insights ::
  "pystr option \<Rightarrow> int option query \<Rightarrow> int option query \<Rightarrow> int option query
     \<Rightarrow> int option query \<Rightarrow> exn + facebook_reply body \<times> nat" where
  "get_facebook_insights connect q_views q_viewers q_visits q_follows =
     (case connect of
        Some msg \<Rightarrow> Inl (StoreError msg)
      | None \<Rightarrow>
          (case fetchone_or_0 q_views of
             Inl e \<Rightarrow> Inr (Error_object e, 500)
           | Inr views_value \<Rightarrow>
          (case fetchone_or_0 q_viewers of
             Inl e \<Rightarrow> Inr (Error_object e, 500)
           | Inr viewers_value \<Rightarrow>
          (case fetchone_or_0 q_visits of
             Inl e \<Rightarrow> Inr (Error_object e, 500)
           | Inr visits_value \<Rightarrow>
          (case fetchone_or_0 q_follows of
             Inl e \<Rightarrow> Inr (Error_object e, 500)
           | Inr follows_value \<Rightarrow>
               Inr (Data \<lparr>fb_views = views_value, fb_viewers = viewers_value,
                          fb_visits = visits_value, fb_follows = follows_value\<rparr>, 200))))))"


section \<open>Properties\<close>


subsection \<open>The realtime write: what a transaction commits\<close>

lemma and_then_None: "fst r = None \<Longrightarrow> and_then r k = k (snd r)"
  by (simp add: and_then_def)

lemma and_then_Some: "fst r = Some e \<Longrightarrow> and_then r k = r"
  by (simp add: and_then_def)

lemma committed_and_then:
  assumes "committed (snd r) = d" and "\<And>c. committed c = d \<Longrightarrow> committed (snd (k c)) = d"
  shows "committed (snd (and_then r k)) = d"
  using assms by (cases "fst r") (simp_all add: and_then_def)

lemma committed_execute: "committed (snd (execute F stmt c)) = committed c"
  by (simp add: execute_def split: option.split)

lemma committed_insert_locations:
  "committed (snd (insert_locations F d5 d30 cs c)) = committed c"
proof (induction cs arbitrary: c)
  case Nil
  show ?case by simp
next
  case (Cons cty rest)
  show ?case
  proof (cases "map_of VIETNAM_CITIES cty")
    case None
    then show ?thesis by (simp add: Cons.IH)
  next
    case (Some info)
    then show ?thesis
      by (simp add: committed_and_then committed_execute Cons.IH)
  qed
qed

lemma committed_insert_devices:
  "committed (snd (insert_devices F rows c)) = committed c"
proof (induction rows arbitrary: c)
  case Nil
  show ?case by simp
next
  case (Cons row rows)
  show ?case
    by (simp add: committed_and_then committed_execute Cons.IH split: sum.split)
qed

lemma committed_insert_pages:
  "committed (snd (insert_pages F rows c)) = committed c"
proof (induction rows arbitrary: c)
  case Nil
  show ?case by simp
next
  case (Cons row rows)
  show ?case
    by (simp add: committed_and_then committed_execute Cons.IH split: sum.split)
qed

lemma commit_raised: "fst (commit F c) = Some e \<Longrightarrow> committed (snd (commit F c)) = committed c"
  by (simp add: commit_def split: option.splits)

lemma commit_done: "fst (commit F c) = None \<Longrightarrow> committed (snd (commit F c)) = working c"
  by (simp add: commit_def split: option.splits)

text \<open>An exception out of the try block leaves the committed store as it was.\<close>

lemma save_to_database_try_raised:
  assumes "fst (save_to_database_try F h data c0) = Some e"
  shows "committed (snd (save_to_database_try F h data c0)) = committed c0"
proof -
  let ?c1 = "snd (execute F truncate_realtime c0)"
  have c1: "committed ?c1 = committed c0" by (rule committed_execute)
  show ?thesis
  proof (cases "fst (execute F truncate_realtime c0)")
    case (Some e1)
    then show ?thesis using c1 by (simp add: save_to_database_try_def and_then_Some)
  next
    case None
    note tr = None
    show ?thesis
    proof (cases "build_dict (users_5min data) []")
      case (Inl e5)
      then show ?thesis using tr c1 by (simp add: save_to_database_try_def and_then_None)
    next
      case (Inr d5)
      note b5 = Inr
      show ?thesis
      proof (cases "build_dict (users_30min data) []")
        case (Inl e30)
        then show ?thesis using tr c1 b5 by (simp add: save_to_database_try_def and_then_None)
      next
        case (Inr d30)
        let ?r2 = "insert_locations F d5 d30 (all_cities h d5 d30) ?c1"
        let ?r3 = "insert_devices F (by_device data) (snd ?r2)"
        let ?r4 = "insert_pages F (by_page data) (snd ?r3)"
        let ?r5 = "commit F (snd ?r4)"
        have eq: "save_to_database_try F h data c0 =
            and_then ?r2 (\<lambda>c2. and_then (insert_devices F (by_device data) c2)
              (\<lambda>c3. and_then (insert_pages F (by_page data) c3) (\<lambda>c4. commit F c4)))"
          using tr b5 Inr by (simp add: save_to_database_try_def and_then_None)
        have c2: "committed (snd ?r2) = committed c0"
          using c1 by (simp add: committed_insert_locations)
        have c3: "committed (snd ?r3) = committed c0"
          using c2 by (simp add: committed_insert_devices)
        have c4: "committed (snd ?r4) = committed c0"
          using c3 by (simp add: committed_insert_pages)
        show ?thesis
        proof (cases "fst ?r2")
          case (Some e2)
          then show ?thesis using eq c2 by (simp add: and_then_Some)
        next
          case None
          note n2 = None
          show ?thesis
          proof (cases "fst ?r3")
            case (Some e3)
            then show ?thesis using eq c3 n2 by (simp add: and_then_Some and_then_None)
          next
            case None
            note n3 = None
            show ?thesis
            proof (cases "fst ?r4")
              case (Some e4)
              then show ?thesis using eq c4 n2 n3 by (simp add: and_then_Some and_then_None)
            next
              case None
              then have eq5: "save_to_database_try F h data c0 = ?r5"
                using eq n2 n3 by (simp add: and_then_None)
              then have "fst ?r5 = Some e" using assms by simp
              then have "committed (snd ?r5) = committed (snd ?r4)" by (rule commit_raised)
              then show ?thesis using eq5 c4 by simp
            qed
          qed
        qed
      qed
    qed
  qed
qed


lemma working_execute:
  "fst (execute F stmt c) = None \<Longrightarrow> working (snd (execute F stmt c)) = stmt (working c)"
  by (simp add: execute_def split: option.splits)

lemma insert_locations_done:
  assumes "fst (insert_locations F d5 d30 cs c) = None"
  shows "working (snd (insert_locations F d5 d30 cs c)) =
           (working c)\<lparr>user_by_location := user_by_location (working c) @
              List.map_filter (\<lambda>cty. map_option (location_row_of d5 d30 cty)
                 (map_of VIETNAM_CITIES cty)) cs\<rparr>"
  using assms
proof (induction cs arbitrary: c)
  case Nil
  show ?case by (simp add:)
next
  case (Cons cty rest)
  show ?case
  proof (cases "map_of VIETNAM_CITIES cty")
    case None
    then show ?thesis using Cons by (simp add:)
  next
    case (Some info)
    let ?x = "execute F (insert_user_by_location (location_row_of d5 d30 cty info)) c"
    have step: "insert_locations F d5 d30 (cty # rest) c =
        and_then ?x (\<lambda>c'. insert_locations F d5 d30 rest c')"
      using Some by simp
    have ok: "fst ?x = None"
    proof (cases "fst ?x")
      case None
      then show ?thesis .
    next
      case (Some e)
      then have "insert_locations F d5 d30 (cty # rest) c = ?x"
        using step by (simp add: and_then_Some)
      with Cons.prems Some show ?thesis by simp
    qed
    then have next_run: "insert_locations F d5 d30 (cty # rest) c =
        insert_locations F d5 d30 rest (snd ?x)"
      using step by (simp add: and_then_None)
    have w: "working (snd ?x) = insert_user_by_location (location_row_of d5 d30 cty info) (working c)"
      using ok by (rule working_execute)
    have "fst (insert_locations F d5 d30 rest (snd ?x)) = None"
      using Cons.prems next_run by simp
    from Cons.IH [OF this] show ?thesis
      using next_run w Some by (simp add: insert_user_by_location_def)
  qed
qed

lemma insert_devices_done:
  assumes "fst (insert_devices F rows c) = None"
  shows "\<exists>rs. working (snd (insert_devices F rows c)) =
              (working c)\<lparr>user_by_source := user_by_source (working c) @ rs\<rparr>
            \<and> list_all2 (\<lambda>row r. row_pair row = Inr (source r, active_users r)) rows rs"
  using assms
proof (induction rows arbitrary: c)
  case Nil
  show ?case by simp
next
  case (Cons row rows)
  show ?case
  proof (cases "row_pair row")
    case (Inl e)
    with Cons.prems show ?thesis by simp
  next
    case (Inr p)
    obtain device users where p: "p = (device, users)" by (cases p)
    let ?r = "\<lparr>source = device, active_users = users\<rparr>"
    let ?x = "execute F (insert_user_by_source ?r) c"
    have step: "insert_devices F (row # rows) c = and_then ?x (\<lambda>c'. insert_devices F rows c')"
      using Inr p by simp
    have ok: "fst ?x = None"
    proof (cases "fst ?x")
      case None
      then show ?thesis .
    next
      case (Some e)
      then have "insert_devices F (row # rows) c = ?x" using step by (simp add: and_then_Some)
      with Cons.prems Some show ?thesis by simp
    qed
    then have next_run: "insert_devices F (row # rows) c = insert_devices F rows (snd ?x)"
      using step by (simp add: and_then_None)
    have w: "working (snd ?x) = insert_user_by_source ?r (working c)"
      using ok by (rule working_execute)
    have "fst (insert_devices F rows (snd ?x)) = None" using Cons.prems next_run by simp
    from Cons.IH [OF this] obtain rs where
      rs: "working (snd (insert_devices F rows (snd ?x))) =
             (working (snd ?x))\<lparr>user_by_source := user_by_source (working (snd ?x)) @ rs\<rparr>"
      and rel: "list_all2 (\<lambda>row r. row_pair row = Inr (source r, active_users r)) rows rs"
      by blast
    have "working (snd (insert_devices F (row # rows) c)) =
            (working c)\<lparr>user_by_source := user_by_source (working c) @ (?r # rs)\<rparr>"
      using rs w next_run by (simp add: insert_user_by_source_def)
    moreover have "list_all2 (\<lambda>row r. row_pair row = Inr (source r, active_users r))
        (row # rows) (?r # rs)"
      using rel Inr p by simp
    ultimately show ?thesis by blast
  qed
qed

lemma insert_pages_done:
  assumes "fst (insert_pages F rows c) = None"
  shows "\<exists>rs. working (snd (insert_pages F rows c)) =
              (working c)\<lparr>views_by_page := views_by_page (working c) @ rs\<rparr>
            \<and> list_all2 (\<lambda>row r. row_pair row = Inr (page_title r, views r)
                  \<and> screen_name r = page_title r) rows rs"
  using assms
proof (induction rows arbitrary: c)
  case Nil
  show ?case by simp
next
  case (Cons row rows)
  show ?case
  proof (cases "row_pair row")
    case (Inl e)
    with Cons.prems show ?thesis by simp
  next
    case (Inr p)
    obtain page_name n where p: "p = (page_name, n)" by (cases p)
    let ?r = "\<lparr>page_title = page_name, screen_name = page_name, views = n\<rparr>"
    let ?x = "execute F (insert_views_by_page ?r) c"
    have step: "insert_pages F (row # rows) c = and_then ?x (\<lambda>c'. insert_pages F rows c')"
      using Inr p by simp
    have ok: "fst ?x = None"
    proof (cases "fst ?x")
      case None
      then show ?thesis .
    next
      case (Some e)
      then have "insert_pages F (row # rows) c = ?x" using step by (simp add: and_then_Some)
      with Cons.prems Some show ?thesis by simp
    qed
    then have next_run: "insert_pages F (row # rows) c = insert_pages F rows (snd ?x)"
      using step by (simp add: and_then_None)
    have w: "working (snd ?x) = insert_views_by_page ?r (working c)"
      using ok by (rule working_execute)
    have "fst (insert_pages F rows (snd ?x)) = None" using Cons.prems next_run by simp
    from Cons.IH [OF this] obtain rs where
      rs: "working (snd (insert_pages F rows (snd ?x))) =
             (working (snd ?x))\<lparr>views_by_page := views_by_page (working (snd ?x)) @ rs\<rparr>"
      and rel: "list_all2 (\<lambda>row r. row_pair row = Inr (page_title r, views r)
                  \<and> screen_name r = page_title r) rows rs"
      by blast
    have "working (snd (insert_pages F (row # rows) c)) =
            (working c)\<lparr>views_by_page := views_by_page (working c) @ (?r # rs)\<rparr>"
      using rs w next_run by (simp add: insert_views_by_page_def)
    moreover have "list_all2 (\<lambda>row r. row_pair row = Inr (page_title r, views r)
                  \<and> screen_name r = page_title r) (row # rows) (?r # rs)"
      using rel Inr p by simp
    ultimately show ?thesis by blast
  qed
qed


lemma and_then_done:
  assumes "fst (and_then r k) = None"
  shows "fst r = None" and "and_then r k = k (snd r)"
  using assms by (cases "fst r"; simp add: and_then_def)+

lemma save_to_database_try_done:
  assumes fin: "fst (save_to_database_try F h data c0) = None"
  obtains d5 d30 srcs pages where
    "build_dict (users_5min data) [] = Inr d5"
    "build_dict (users_30min data) [] = Inr d30"
    "committed (snd (save_to_database_try F h data c0)) =
       (working c0)\<lparr>
         user_by_location := List.map_filter (\<lambda>cty. map_option (location_row_of d5 d30 cty)
           (map_of VIETNAM_CITIES cty)) (all_cities h d5 d30),
         user_by_source := srcs,
         views_by_page := pages\<rparr>"
    "list_all2 (\<lambda>row r. row_pair row = Inr (source r, active_users r)) (by_device data) srcs"
    "list_all2 (\<lambda>row r. row_pair row = Inr (page_title r, views r)
        \<and> screen_name r = page_title r) (by_page data) pages"
proof -
  let ?r1 = "execute F truncate_realtime c0"
  let ?c1 = "snd ?r1"
  have unf: "save_to_database_try F h data c0 = and_then ?r1 (\<lambda>c1.
       case build_dict (users_5min data) [] of
         Inl e \<Rightarrow> (Some e, c1)
       | Inr d5 \<Rightarrow>
      (case build_dict (users_30min data) [] of
         Inl e \<Rightarrow> (Some e, c1)
       | Inr d30 \<Rightarrow>
           and_then (insert_locations F d5 d30 (all_cities h d5 d30) c1) (\<lambda>c2.
           and_then (insert_devices F (by_device data) c2) (\<lambda>c3.
           and_then (insert_pages F (by_page data) c3) (\<lambda>c4.
           commit F c4)))))"
    by (simp add: save_to_database_try_def)
  have ok1: "fst ?r1 = None" using fin [unfolded unf] by (rule and_then_done(1))
  have w1: "working ?c1 = truncate_realtime (working c0)" using ok1 by (rule working_execute)
  note fin1 = fin [unfolded unf and_then_None [OF ok1]]
  obtain d5 where b5: "build_dict (users_5min data) [] = Inr d5"
    using fin1 by (cases "build_dict (users_5min data) []") simp_all
  obtain d30 where b30: "build_dict (users_30min data) [] = Inr d30"
    using fin1 b5 by (cases "build_dict (users_30min data) []") simp_all
  let ?r2 = "insert_locations F d5 d30 (all_cities h d5 d30) ?c1"
  let ?r3 = "insert_devices F (by_device data) (snd ?r2)"
  let ?r4 = "insert_pages F (by_page data) (snd ?r3)"
  let ?r5 = "commit F (snd ?r4)"
  have eq2: "save_to_database_try F h data c0 =
      and_then ?r2 (\<lambda>c2. and_then (insert_devices F (by_device data) c2)
        (\<lambda>c3. and_then (insert_pages F (by_page data) c3) (\<lambda>c4. commit F c4)))"
    unfolding unf and_then_None [OF ok1] using b5 b30 by simp
  have ok2: "fst ?r2 = None" using fin [unfolded eq2] by (rule and_then_done(1))
  have eq3: "save_to_database_try F h data c0 =
      and_then ?r3 (\<lambda>c3. and_then (insert_pages F (by_page data) c3) (\<lambda>c4. commit F c4))"
    using eq2 ok2 by (simp add: and_then_None)
  have ok3: "fst ?r3 = None" using fin [unfolded eq3] by (rule and_then_done(1))
  have eq4: "save_to_database_try F h data c0 = and_then ?r4 (\<lambda>c4. commit F c4)"
    using eq3 ok3 by (simp add: and_then_None)
  have ok4: "fst ?r4 = None" using fin [unfolded eq4] by (rule and_then_done(1))
  have eq5: "save_to_database_try F h data c0 = ?r5"
    using eq4 ok4 by (simp add: and_then_None)
  have ok5: "fst ?r5 = None" using fin eq5 by simp
  have w2: "working (snd ?r2) = (working ?c1)\<lparr>user_by_location := user_by_location (working ?c1) @
              List.map_filter (\<lambda>cty. map_option (location_row_of d5 d30 cty)
                 (map_of VIETNAM_CITIES cty)) (all_cities h d5 d30)\<rparr>"
    using ok2 by (rule insert_locations_done)
  obtain srcs where w3: "working (snd ?r3) =
        (working (snd ?r2))\<lparr>user_by_source := user_by_source (working (snd ?r2)) @ srcs\<rparr>"
    and rel3: "list_all2 (\<lambda>row r. row_pair row = Inr (source r, active_users r)) (by_device data) srcs"
    using insert_devices_done [OF ok3] by blast
  obtain pages where w4: "working (snd ?r4) =
        (working (snd ?r3))\<lparr>views_by_page := views_by_page (working (snd ?r3)) @ pages\<rparr>"
    and rel4: "list_all2 (\<lambda>row r. row_pair row = Inr (page_title r, views r)
                  \<and> screen_name r = page_title r) (by_page data) pages"
    using insert_pages_done [OF ok4] by blast
  have "committed (snd ?r5) = working (snd ?r4)" using ok5 by (rule commit_done)
  then have "committed (snd (save_to_database_try F h data c0)) =
             (working c0)\<lparr>
               user_by_location := List.map_filter (\<lambda>cty. map_option (location_row_of d5 d30 cty)
                 (map_of VIETNAM_CITIES cty)) (all_cities h d5 d30),
               user_by_source := srcs,
               views_by_page := pages\<rparr>"
    using eq5 w4 w3 w2 w1 by (simp add: truncate_realtime_def)
  then show thesis using b5 b30 rel3 rel4 that by blast
qed

lemma save_to_database_raised:
  assumes "fst (save_to_database F h data d) = Some e"
  shows "snd (save_to_database F h data d) = d"
proof (cases "connect_fault F")
  case (Some msg)
  then show ?thesis by (simp add: save_to_database_def get_db_connection_def)
next
  case None
  let ?c0 = "\<lparr>committed = d, working = d, calls = 0\<rparr>"
  let ?r = "save_to_database_try F h data ?c0"
  have unf: "save_to_database F h data d =
      (case fst ?r of None \<Rightarrow> (None, committed (snd ?r))
       | Some e \<Rightarrow> (Some e, committed (rollback (snd ?r))))"
    using None by (simp add: save_to_database_def get_db_connection_def case_prod_beta)
  show ?thesis
  proof (cases "fst ?r")
    case None
    with assms unf show ?thesis by simp
  next
    case (Some e')
    then have "committed (snd ?r) = committed ?c0" by (rule save_to_database_try_raised)
    then show ?thesis using unf Some by (simp add: rollback_def)
  qed
qed

lemma save_to_database_done:
  assumes "fst (save_to_database F h data d) = None"
  obtains d5 d30 srcs pages where
    "build_dict (users_5min data) [] = Inr d5"
    "build_dict (users_30min data) [] = Inr d30"
    "snd (save_to_database F h data d) =
       d\<lparr>user_by_location := List.map_filter (\<lambda>cty. map_option (location_row_of d5 d30 cty)
           (map_of VIETNAM_CITIES cty)) (all_cities h d5 d30),
         user_by_source := srcs,
         views_by_page := pages\<rparr>"
    "list_all2 (\<lambda>row r. row_pair row = Inr (source r, active_users r)) (by_device data) srcs"
    "list_all2 (\<lambda>row r. row_pair row = Inr (page_title r, views r)
        \<and> screen_name r = page_title r) (by_page data) pages"
proof (cases "connect_fault F")
  case (Some msg)
  with assms show ?thesis by (simp add: save_to_database_def get_db_connection_def)
next
  case None
  let ?c0 = "\<lparr>committed = d, working = d, calls = 0\<rparr>"
  let ?r = "save_to_database_try F h data ?c0"
  have unf: "save_to_database F h data d =
      (case fst ?r of None \<Rightarrow> (None, committed (snd ?r))
       | Some e \<Rightarrow> (Some e, committed (rollback (snd ?r))))"
    using None by (simp add: save_to_database_def get_db_connection_def case_prod_beta)
  have ok: "fst ?r = None" using assms unf by (cases "fst ?r") simp_all
  then have res: "snd (save_to_database F h data d) = committed (snd ?r)" using unf by simp
  from ok obtain d5 d30 srcs pages where
    "build_dict (users_5min data) [] = Inr d5"
    "build_dict (users_30min data) [] = Inr d30"
    "committed (snd ?r) =
       (working ?c0)\<lparr>
         user_by_location := List.map_filter (\<lambda>cty. map_option (location_row_of d5 d30 cty)
           (map_of VIETNAM_CITIES cty)) (all_cities h d5 d30),
         user_by_source := srcs,
         views_by_page := pages\<rparr>"
    "list_all2 (\<lambda>row r. row_pair row = Inr (source r, active_users r)) (by_device data) srcs"
    "list_all2 (\<lambda>row r. row_pair row = Inr (page_title r, views r)
        \<and> screen_name r = page_title r) (by_page data) pages"
    by (rule save_to_database_try_done)
  then show thesis using res that by simp
qed


subsection \<open>The dictionaries, and when the write goes through\<close>

lemma build_dict_map_of:
  assumes "build_dict rows d = Inr d'"
  shows "map_of d' = map_of d ++ map_of (rev (map (projr \<circ> row_pair) rows))"
  using assms
proof (induction rows arbitrary: d)
  case Nil
  then show ?case by simp
next
  case (Cons row rows)
  show ?case
  proof (cases "row_pair row")
    case (Inl e)
    with Cons.prems show ?thesis by simp
  next
    case (Inr p)
    obtain cty users where p: "p = (cty, users)" by (cases p)
    have "build_dict rows (AList.update cty users d) = Inr d'"
      using Cons.prems Inr p by simp
    from Cons.IH [OF this] show ?thesis
      using Inr p by (simp add: update_conv' map_add_def fun_eq_iff split: option.split)
  qed
qed


lemma build_dict_total:
  assumes "\<forall>row\<in>set rows. \<exists>p. row_pair row = Inr p"
  shows "\<exists>d'. build_dict rows d = Inr d'"
  using assms
proof (induction rows arbitrary: d)
  case Nil
  then show ?case by simp
next
  case (Cons row rows)
  then obtain cty users where "row_pair row = Inr (cty, users)" by fastforce
  moreover have "\<exists>d'. build_dict rows (AList.update cty users d) = Inr d'"
    using Cons by simp
  ultimately show ?case by simp
qed

lemma execute_no_fault: "stmt_fault F (calls c) = None \<Longrightarrow> fst (execute F stmt c) = None"
  by (simp add: execute_def)

lemma insert_locations_total:
  assumes "\<And>n. stmt_fault F n = None"
  shows "fst (insert_locations F d5 d30 cs c) = None"
proof (induction cs arbitrary: c)
  case Nil
  show ?case by simp
next
  case (Cons cty rest)
  show ?case
    by (cases "map_of VIETNAM_CITIES cty")
      (simp_all add: Cons.IH and_then_None execute_no_fault assms)
qed

lemma insert_devices_total:
  assumes "\<And>n. stmt_fault F n = None" and "\<forall>row\<in>set rows. \<exists>p. row_pair row = Inr p"
  shows "fst (insert_devices F rows c) = None"
  using assms(2)
proof (induction rows arbitrary: c)
  case Nil
  show ?case by simp
next
  case (Cons row rows)
  then obtain device users where "row_pair row = Inr (device, users)" by fastforce
  then show ?case using Cons by (simp add: and_then_None execute_no_fault assms(1))
qed

lemma insert_pages_total:
  assumes "\<And>n. stmt_fault F n = None" and "\<forall>row\<in>set rows. \<exists>p. row_pair row = Inr p"
  shows "fst (insert_pages F rows c) = None"
  using assms(2)
proof (induction rows arbitrary: c)
  case Nil
  show ?case by simp
next
  case (Cons row rows)
  then obtain page_name n where "row_pair row = Inr (page_name, n)" by fastforce
  then show ?case using Cons by (simp add: and_then_None execute_no_fault assms(1))
qed


lemma save_to_database_total:
  assumes rows5: "\<forall>row\<in>set (users_5min data). \<exists>p. row_pair row = Inr p"
    and rows30: "\<forall>row\<in>set (users_30min data). \<exists>p. row_pair row = Inr p"
    and rowsd: "\<forall>row\<in>set (by_device data). \<exists>p. row_pair row = Inr p"
    and rowsp: "\<forall>row\<in>set (by_page data). \<exists>p. row_pair row = Inr p"
  shows "fst (save_to_database no_faults h data d) = None"
proof -
  have nf: "\<And>n. stmt_fault no_faults n = None" by (simp add: no_faults_def)
  obtain d5 where b5: "build_dict (users_5min data) [] = Inr d5"
    using build_dict_total [OF rows5] by blast
  obtain d30 where b30: "build_dict (users_30min data) [] = Inr d30"
    using build_dict_total [OF rows30] by blast
  let ?c0 = "\<lparr>committed = d, working = d, calls = 0\<rparr>"
  have "fst (save_to_database_try no_faults h data ?c0) = None"
    unfolding save_to_database_try_def
    by (simp add: and_then_None execute_no_fault nf b5 b30 insert_locations_total
        insert_devices_total [OF nf rowsd] insert_pages_total [OF nf rowsp] commit_def)
  then show ?thesis
    by (simp add: save_to_database_def get_db_connection_def no_faults_def case_prod_beta)
qed



subsection \<open>The rows of a response\<close>

lemma and_then_weak_cong: "r = r' \<Longrightarrow> and_then r k = and_then r' k"
  by simp

lemma set_all_cities:
  "set (all_cities h d5 d30) = {cty. map_of d5 cty \<noteq> None \<or> map_of d30 cty \<noteq> None}"
  by (auto simp: all_cities_def dict_keys_def map_of_eq_None_iff)

lemma distinct_all_cities: "distinct (all_cities h d5 d30)"
  by (simp add: all_cities_def)


lemma city_location_rows:
  "map city (List.map_filter (\<lambda>cty. map_option (location_row_of d5 d30 cty)
      (map_of VIETNAM_CITIES cty)) ks) = filter (\<lambda>cty. map_of VIETNAM_CITIES cty \<noteq> None) ks"
  by (induction ks) (auto simp: location_row_of_def)

lemma set_location_rows:
  "set (List.map_filter (\<lambda>cty. map_option (location_row_of d5 d30 cty)
      (map_of VIETNAM_CITIES cty)) ks) =
   {location_row_of d5 d30 cty info | cty info.
      map_of VIETNAM_CITIES cty = Some info \<and> cty \<in> set ks}"
  by (induction ks) (auto split: option.splits)





subsection \<open>Claims about the realtime write\<close>

lemmas eval_store =
  save_to_database_def get_db_connection_def save_to_database_try_def and_then_def
  execute_def commit_def rollback_def row_pair_def all_cities_def dict_keys_def dict_get_def
  location_row_of_def truncate_realtime_def insert_user_by_location_def
  insert_user_by_source_def insert_views_by_page_def ascii_def VIETNAM_CITIES_def no_faults_def


text \<open>
  Claim C2.  The write of a realtime cycle is all or nothing.  When \<open>save_to_database\<close>
  raises, at the \<open>TRUNCATE\<close>, at any insert after it, while reading the report rows or at
  the commit, the committed store is exactly the store before the call, so no table is left
  empty.  When it returns, the three replace tables hold the rows of the whole response.
  A cycle whose fetch raised does not touch the store, and whenever \<open>refresh_data\<close>
  answers with an error the store is the one before the cycle.
\<close>

theorem save_to_database_atomic:
  "(\<forall>e. fst (save_to_database F h data d) = Some e \<longrightarrow>
        snd (save_to_database F h data d) = d)
   \<and> (fst (save_to_database F h data d) = None \<longrightarrow>
        list_all2 (\<lambda>row r. row_pair row = Inr (source r, active_users r))
          (by_device data) (user_by_source (snd (save_to_database F h data d)))
      \<and> list_all2 (\<lambda>row r. row_pair row = Inr (page_title r, views r)
            \<and> screen_name r = page_title r)
          (by_page data) (views_by_page (snd (save_to_database F h data d)))
      \<and> (\<exists>d5 d30. build_dict (users_5min data) [] = Inr d5
            \<and> build_dict (users_30min data) [] = Inr d30
            \<and> user_by_location (snd (save_to_database F h data d)) =
                List.map_filter (\<lambda>cty. map_option (location_row_of d5 d30 cty)
                  (map_of VIETNAM_CITIES cty)) (all_cities h d5 d30)))
   \<and> (\<forall>e. fetch_ga4_realtime_data r5 r30 rd rp = Inl e \<longrightarrow>
        refresh_data F h r5 r30 rd rp d = (Refresh_error e, d)
      \<and> sync_job F h r5 r30 rd rp d = d)
   \<and> (\<forall>e. fst (refresh_data F h r5 r30 rd rp d) = Refresh_error e \<longrightarrow>
        snd (refresh_data F h r5 r30 rd rp d) = d)"
proof (intro conjI allI impI)
  fix e assume "fst (save_to_database F h data d) = Some e"
  then show "snd (save_to_database F h data d) = d" by (rule save_to_database_raised)
next
  assume ok: "fst (save_to_database F h data d) = None"
  from ok obtain d5 d30 srcs pages where
    b5: "build_dict (users_5min data) [] = Inr d5" and
    b30: "build_dict (users_30min data) [] = Inr d30" and
    res: "snd (save_to_database F h data d) =
       d\<lparr>user_by_location := List.map_filter (\<lambda>cty. map_option (location_row_of d5 d30 cty)
           (map_of VIETNAM_CITIES cty)) (all_cities h d5 d30),
         user_by_source := srcs,
         views_by_page := pages\<rparr>" and
    rel3: "list_all2 (\<lambda>row r. row_pair row = Inr (source r, active_users r)) (by_device data) srcs" and
    rel4: "list_all2 (\<lambda>row r. row_pair row = Inr (page_title r, views r)
                  \<and> screen_name r = page_title r) (by_page data) pages"
    by (rule save_to_database_done)
  show "list_all2 (\<lambda>row r. row_pair row = Inr (source r, active_users r))
          (by_device data) (user_by_source (snd (save_to_database F h data d)))"
    using rel3 res by simp
  show "list_all2 (\<lambda>row r. row_pair row = Inr (page_title r, views r)
            \<and> screen_name r = page_title r)
          (by_page data) (views_by_page (snd (save_to_database F h data d)))"
    using rel4 res by simp
  show "\<exists>d5 d30. build_dict (users_5min data) [] = Inr d5
            \<and> build_dict (users_30min data) [] = Inr d30
            \<and> user_by_location (snd (save_to_database F h data d)) =
                List.map_filter (\<lambda>cty. map_option (location_row_of d5 d30 cty)
                  (map_of VIETNAM_CITIES cty)) (all_cities h d5 d30)"
    using b5 b30 res by simp
next
  fix e assume "fetch_ga4_realtime_data r5 r30 rd rp = Inl e"
  then show "refresh_data F h r5 r30 rd rp d = (Refresh_error e, d)"
    and "sync_job F h r5 r30 rd rp d = d"
    by (simp_all add: refresh_data_def sync_job_def)
next
  fix e assume err: "fst (refresh_data F h r5 r30 rd rp d) = Refresh_error e"
  show "snd (refresh_data F h r5 r30 rd rp d) = d"
  proof (cases "fetch_ga4_realtime_data r5 r30 rd rp")
    case (Inl e')
    then show ?thesis by (simp add: refresh_data_def)
  next
    case (Inr ga4)
    show ?thesis
    proof (cases "fst (save_to_database F h ga4 d)")
      case None
      then have "fst (refresh_data F h r5 r30 rd rp d) = Refresh_success"
        using Inr by (simp add: refresh_data_def case_prod_beta)
      with err show ?thesis by simp
    next
      case (Some e')
      then have "snd (save_to_database F h ga4 d) = d" by (rule save_to_database_raised)
      then show ?thesis using Inr Some by (simp add: refresh_data_def case_prod_beta)
    qed
  qed
qed



text \<open>
  Claim C1.  The reference table has 14 entries with distinct keys.  After a write that
  returned, \<open>user_by_location\<close> holds one row for each city that the 5-minute or the
  30-minute report names and the reference table knows, and no other row; province,
  latitude and longitude are those of the table, the counts are the last ones reported for
  the city (0 where a report does not name it).  Whether the write raises does not depend
  on the cities: with well-formed rows and a store that does not fail it returns.  A
  response with Hanoi (42 users) and Paris (7 users) stores the Hanoi row alone.
\<close>

theorem user_by_location_reference_filter:
  "length VIETNAM_CITIES = 14 \<and> distinct (map fst VIETNAM_CITIES)
   \<and> (fst (save_to_database F h data d) = None \<longrightarrow>
        (\<exists>d5 d30.
            build_dict (users_5min data) [] = Inr d5
          \<and> build_dict (users_30min data) [] = Inr d30
          \<and> map_of d5 = map_of (rev (map (projr \<circ> row_pair) (users_5min data)))
          \<and> map_of d30 = map_of (rev (map (projr \<circ> row_pair) (users_30min data)))
          \<and> set (user_by_location (snd (save_to_database F h data d))) =
              {\<lparr>province = name info, city = cty, latitude = lat info, longitude = lng info,
                active_users_5min = dict_get d5 cty 0,
                active_users_30min = dict_get d30 cty 0\<rparr> | cty info.
                 map_of VIETNAM_CITIES cty = Some info
                 \<and> (map_of d5 cty \<noteq> None \<or> map_of d30 cty \<noteq> None)}
          \<and> distinct (map city (user_by_location (snd (save_to_database F h data d))))))
   \<and> ((\<forall>row\<in>set (users_5min data @ users_30min data @ by_device data @ by_page data).
          \<exists>p. row_pair row = Inr p) \<longrightarrow>
        fst (save_to_database no_faults h data d) = None)
   \<and> save_to_database no_faults h
        \<lparr>users_5min =
           [\<lparr>dimension_values = [ascii ''Hanoi''], metric_values = [IntText 42]\<rparr>,
            \<lparr>dimension_values = [ascii ''Paris''], metric_values = [IntText 7]\<rparr>],
         users_30min = [], by_device = [], by_page = []\<rparr> d =
       (None, d\<lparr>user_by_location :=
                  [\<lparr>province = ascii ''H'' @ [224] @ ascii '' N'' @ [7897] @ ascii ''i'',
                    city = ascii ''Hanoi'', latitude = 21.0285, longitude = 105.8542,
                    active_users_5min = 42, active_users_30min = 0\<rparr>],
                user_by_source := [], views_by_page := []\<rparr>)"
proof (intro conjI impI)
  show "length VIETNAM_CITIES = 14" by (simp add: VIETNAM_CITIES_def)
  show "distinct (map fst VIETNAM_CITIES)" by (simp add: VIETNAM_CITIES_def ascii_def)
next
  assume ok: "fst (save_to_database F h data d) = None"
  from ok obtain d5 d30 srcs pages where
    b5: "build_dict (users_5min data) [] = Inr d5" and
    b30: "build_dict (users_30min data) [] = Inr d30" and
    res: "snd (save_to_database F h data d) =
       d\<lparr>user_by_location := List.map_filter (\<lambda>cty. map_option (location_row_of d5 d30 cty)
           (map_of VIETNAM_CITIES cty)) (all_cities h d5 d30),
         user_by_source := srcs,
         views_by_page := pages\<rparr>" and
    "list_all2 (\<lambda>row r. row_pair row = Inr (source r, active_users r)) (by_device data) srcs" and
    "list_all2 (\<lambda>row r. row_pair row = Inr (page_title r, views r)
                  \<and> screen_name r = page_title r) (by_page data) pages"
    by (rule save_to_database_done)
  have m5: "map_of d5 = map_of (rev (map (projr \<circ> row_pair) (users_5min data)))"
    using build_dict_map_of [OF b5] by simp
  have m30: "map_of d30 = map_of (rev (map (projr \<circ> row_pair) (users_30min data)))"
    using build_dict_map_of [OF b30] by simp
  have rows: "set (user_by_location (snd (save_to_database F h data d))) =
              {\<lparr>province = name info, city = cty, latitude = lat info, longitude = lng info,
                active_users_5min = dict_get d5 cty 0,
                active_users_30min = dict_get d30 cty 0\<rparr> | cty info.
                 map_of VIETNAM_CITIES cty = Some info
                 \<and> (map_of d5 cty \<noteq> None \<or> map_of d30 cty \<noteq> None)}"
    unfolding res by (simp add: set_location_rows set_all_cities location_row_of_def)
  have "distinct (filter (\<lambda>cty. map_of VIETNAM_CITIES cty \<noteq> None) (all_cities h d5 d30))"
    using distinct_all_cities by (rule distinct_filter)
  then have keys: "distinct (map city (user_by_location (snd (save_to_database F h data d))))"
    unfolding res by (simp add: city_location_rows)
  show "\<exists>d5 d30.
            build_dict (users_5min data) [] = Inr d5
          \<and> build_dict (users_30min data) [] = Inr d30
          \<and> map_of d5 = map_of (rev (map (projr \<circ> row_pair) (users_5min data)))
          \<and> map_of d30 = map_of (rev (map (projr \<circ> row_pair) (users_30min data)))
          \<and> set (user_by_location (snd (save_to_database F h data d))) =
              {\<lparr>province = name info, city = cty, latitude = lat info, longitude = lng info,
                active_users_5min = dict_get d5 cty 0,
                active_users_30min = dict_get d30 cty 0\<rparr> | cty info.
                 map_of VIETNAM_CITIES cty = Some info
                 \<and> (map_of d5 cty \<noteq> None \<or> map_of d30 cty \<noteq> None)}
          \<and> distinct (map city (user_by_location (snd (save_to_database F h data d))))"
    using b5 b30 m5 m30 rows keys by blast
next
  assume "\<forall>row\<in>set (users_5min data @ users_30min data @ by_device data @ by_page data).
          \<exists>p. row_pair row = Inr p"
  then show "fst (save_to_database no_faults h data d) = None"
    by (intro save_to_database_total) simp_all
next
  show "save_to_database no_faults h
        \<lparr>users_5min =
           [\<lparr>dimension_values = [ascii ''Hanoi''], metric_values = [IntText 42]\<rparr>,
            \<lparr>dimension_values = [ascii ''Paris''], metric_values = [IntText 7]\<rparr>],
         users_30min = [], by_device = [], by_page = []\<rparr> d =
       (None, d\<lparr>user_by_location :=
                  [\<lparr>province = ascii ''H'' @ [224] @ ascii '' N'' @ [7897] @ ascii ''i'',
                    city = ascii ''Hanoi'', latitude = 21.0285, longitude = 105.8542,
                    active_users_5min = 42, active_users_30min = 0\<rparr>],
                user_by_source := [], views_by_page := []\<rparr>)"
    by (simp add: eval_store cong: and_then_weak_cong)
qed


theorem save_to_database_atomic_witness:
  "fst (save_to_database
       \<lparr>connect_fault = None,
        stmt_fault = (\<lambda>n. if n = 2 then Some (ascii ''connection lost'') else None)\<rparr>
       length
       \<lparr>users_5min =
          [\<lparr>dimension_values = [ascii ''Hanoi''], metric_values = [IntText 42]\<rparr>,
           \<lparr>dimension_values = [ascii ''Paris''], metric_values = [IntText 7]\<rparr>],
        users_30min =
          [\<lparr>dimension_values = [ascii ''Hanoi''], metric_values = [IntText 50]\<rparr>],
        by_device =
          [\<lparr>dimension_values = [ascii ''mobile''], metric_values = [IntText 5]\<rparr>],
        by_page =
          [\<lparr>dimension_values = [ascii ''Home''], metric_values = [IntText 12]\<rparr>]\<rparr>
       \<lparr>user_by_location =
          [\<lparr>province = ascii ''Vinh'', city = ascii ''Vinh'', latitude = 18.6796,
            longitude = 105.6813, active_users_5min = 1, active_users_30min = 3\<rparr>],
        user_by_source = [\<lparr>source = ascii ''desktop'', active_users = 3\<rparr>],
        views_by_page = [],
        facebook_page_insights_daily = [], facebook_post_insights = []\<rparr>)
    = Some (StoreError (ascii ''connection lost''))
   \<and> snd (save_to_database
       \<lparr>connect_fault = None,
        stmt_fault = (\<lambda>n. if n = 2 then Some (ascii ''connection lost'') else None)\<rparr>
       length
       \<lparr>users_5min =
          [\<lparr>dimension_values = [ascii ''Hanoi''], metric_values = [IntText 42]\<rparr>,
           \<lparr>dimension_values = [ascii ''Paris''], metric_values = [IntText 7]\<rparr>],
        users_30min =
          [\<lparr>dimension_values = [ascii ''Hanoi''], metric_values = [IntText 50]\<rparr>],
        by_device =
          [\<lparr>dimension_values = [ascii ''mobile''], metric_values = [IntText 5]\<rparr>],
        by_page =
          [\<lparr>dimension_values = [ascii ''Home''], metric_values = [IntText 12]\<rparr>]\<rparr>
       \<lparr>user_by_location =
          [\<lparr>province = ascii ''Vinh'', city = ascii ''Vinh'', latitude = 18.6796,
            longitude = 105.6813, active_users_5min = 1, active_users_30min = 3\<rparr>],
        user_by_source = [\<lparr>source = ascii ''desktop'', active_users = 3\<rparr>],
        views_by_page = [],
        facebook_page_insights_daily = [], facebook_post_insights = []\<rparr>)
    = \<lparr>user_by_location =
          [\<lparr>province = ascii ''Vinh'', city = ascii ''Vinh'', latitude = 18.6796,
            longitude = 105.6813, active_users_5min = 1, active_users_30min = 3\<rparr>],
        user_by_source = [\<lparr>source = ascii ''desktop'', active_users = 3\<rparr>],
        views_by_page = [],
        facebook_page_insights_daily = [], facebook_post_insights = []\<rparr>
   \<and> refresh_data no_faults length (Inr []) (Inl (TransportError (ascii ''timeout'')))
        (Inr []) (Inr [])
       \<lparr>user_by_location =
          [\<lparr>province = ascii ''Vinh'', city = ascii ''Vinh'', latitude = 18.6796,
            longitude = 105.6813, active_users_5min = 1, active_users_30min = 3\<rparr>],
        user_by_source = [\<lparr>source = ascii ''desktop'', active_users = 3\<rparr>],
        views_by_page = [],
        facebook_page_insights_daily = [], facebook_post_insights = []\<rparr>
    = (Refresh_error (TransportError (ascii ''timeout'')),
       \<lparr>user_by_location =
          [\<lparr>province = ascii ''Vinh'', city = ascii ''Vinh'', latitude = 18.6796,
            longitude = 105.6813, active_users_5min = 1, active_users_30min = 3\<rparr>],
        user_by_source = [\<lparr>source = ascii ''desktop'', active_users = 3\<rparr>],
        views_by_page = [],
        facebook_page_insights_daily = [], facebook_post_insights = []\<rparr>)
   \<and> user_by_source (snd (save_to_database no_faults length
       \<lparr>users_5min =
          [\<lparr>dimension_values = [ascii ''Hanoi''], metric_values = [IntText 42]\<rparr>,
           \<lparr>dimension_values = [ascii ''Paris''], metric_values = [IntText 7]\<rparr>],
        users_30min =
          [\<lparr>dimension_values = [ascii ''Hanoi''], metric_values = [IntText 50]\<rparr>],
        by_device =
          [\<lparr>dimension_values = [ascii ''mobile''], metric_values = [IntText 5]\<rparr>],
        by_page =
          [\<lparr>dimension_values = [ascii ''Home''], metric_values = [IntText 12]\<rparr>]\<rparr>
       \<lparr>user_by_location =
          [\<lparr>province = ascii ''Vinh'', city = ascii ''Vinh'', latitude = 18.6796,
            longitude = 105.6813, active_users_5min = 1, active_users_30min = 3\<rparr>],
        user_by_source = [\<lparr>source = ascii ''desktop'', active_users = 3\<rparr>],
        views_by_page = [],
        facebook_page_insights_daily = [], facebook_post_insights = []\<rparr>))
    = [\<lparr>source = ascii ''mobile'', active_users = 5\<rparr>]"
proof -
  let ?F = "\<lparr>connect_fault = None,
        stmt_fault = (\<lambda>n. if n = 2 then Some (ascii ''connection lost'') else None)\<rparr>"
  let ?data = "\<lparr>users_5min =
          [\<lparr>dimension_values = [ascii ''Hanoi''], metric_values = [IntText 42]\<rparr>,
           \<lparr>dimension_values = [ascii ''Paris''], metric_values = [IntText 7]\<rparr>],
        users_30min =
          [\<lparr>dimension_values = [ascii ''Hanoi''], metric_values = [IntText 50]\<rparr>],
        by_device =
          [\<lparr>dimension_values = [ascii ''mobile''], metric_values = [IntText 5]\<rparr>],
        by_page =
          [\<lparr>dimension_values = [ascii ''Home''], metric_values = [IntText 12]\<rparr>]\<rparr>"
  let ?d = "\<lparr>user_by_location =
          [\<lparr>province = ascii ''Vinh'', city = ascii ''Vinh'', latitude = 18.6796,
            longitude = 105.6813, active_users_5min = 1, active_users_30min = 3\<rparr>],
        user_by_source = [\<lparr>source = ascii ''desktop'', active_users = 3\<rparr>],
        views_by_page = [],
        facebook_page_insights_daily = [], facebook_post_insights = []\<rparr>"
  have raised: "fst (save_to_database ?F length ?data ?d) =
      Some (StoreError (ascii ''connection lost''))"
    by (simp add: eval_store cong: and_then_weak_cong)
  have kept: "snd (save_to_database ?F length ?data ?d) = ?d"
    using save_to_database_atomic [THEN conjunct1, rule_format, OF raised] .
  have "fetch_ga4_realtime_data (Inr []) (Inl (TransportError (ascii ''timeout'')))
      (Inr []) (Inr []) = Inl (TransportError (ascii ''timeout''))"
    by (simp add: fetch_ga4_realtime_data_def)
  from save_to_database_atomic
    [THEN conjunct2, THEN conjunct2, THEN conjunct1, rule_format, OF this]
  have unfetched: "refresh_data no_faults length (Inr [])
      (Inl (TransportError (ascii ''timeout''))) (Inr []) (Inr []) ?d =
      (Refresh_error (TransportError (ascii ''timeout'')), ?d)"
    by (rule conjunct1)
  have "fst (save_to_database no_faults length ?data ?d) = None"
    by (simp add: eval_store cong: and_then_weak_cong)
  from save_to_database_atomic [THEN conjunct2, THEN conjunct1, rule_format, OF this]
  have "list_all2 (\<lambda>row r. row_pair row = Inr (source r, active_users r)) (by_device ?data)
      (user_by_source (snd (save_to_database no_faults length ?data ?d)))"
    by (rule conjunct1)
  then obtain z where "user_by_source (snd (save_to_database no_faults length ?data ?d)) = [z]"
    and "source z = ascii ''mobile''" and "active_users z = 5"
    by (auto simp: list_all2_Cons1 row_pair_def)
  then have replaced: "user_by_source (snd (save_to_database no_faults length ?data ?d)) =
      [\<lparr>source = ascii ''mobile'', active_users = 5\<rparr>]"
    by (cases z) simp
  from raised kept unfetched replaced show ?thesis by simp
qed


theorem user_by_location_reference_filter_witness:
  "fst (save_to_database no_faults length
       \<lparr>users_5min =
          [\<lparr>dimension_values = [ascii ''Hanoi''], metric_values = [IntText 42]\<rparr>,
           \<lparr>dimension_values = [ascii ''Paris''], metric_values = [IntText 7]\<rparr>],
        users_30min =
          [\<lparr>dimension_values = [ascii ''Hanoi''], metric_values = [IntText 50]\<rparr>],
        by_device =
          [\<lparr>dimension_values = [ascii ''mobile''], metric_values = [IntText 5]\<rparr>],
        by_page =
          [\<lparr>dimension_values = [ascii ''Home''], metric_values = [IntText 12]\<rparr>]\<rparr>
       \<lparr>user_by_location =
          [\<lparr>province = ascii ''Vinh'', city = ascii ''Vinh'', latitude = 18.6796,
            longitude = 105.6813, active_users_5min = 1, active_users_30min = 3\<rparr>],
        user_by_source = [\<lparr>source = ascii ''desktop'', active_users = 3\<rparr>],
        views_by_page = [],
        facebook_page_insights_daily = [], facebook_post_insights = []\<rparr>) = None
   \<and> distinct (map city (user_by_location (snd (save_to_database no_faults length
       \<lparr>users_5min =
          [\<lparr>dimension_values = [ascii ''Hanoi''], metric_values = [IntText 42]\<rparr>,
           \<lparr>dimension_values = [ascii ''Paris''], metric_values = [IntText 7]\<rparr>],
        users_30min =
          [\<lparr>dimension_values = [ascii ''Hanoi''], metric_values = [IntText 50]\<rparr>],
        by_device =
          [\<lparr>dimension_values = [ascii ''mobile''], metric_values = [IntText 5]\<rparr>],
        by_page =
          [\<lparr>dimension_values = [ascii ''Home''], metric_values = [IntText 12]\<rparr>]\<rparr>
       \<lparr>user_by_location =
          [\<lparr>province = ascii ''Vinh'', city = ascii ''Vinh'', latitude = 18.6796,
            longitude = 105.6813, active_users_5min = 1, active_users_30min = 3\<rparr>],
        user_by_source = [\<lparr>source = ascii ''desktop'', active_users = 3\<rparr>],
        views_by_page = [],
        facebook_page_insights_daily = [], facebook_post_insights = []\<rparr>))))"
proof -
  let ?data = "\<lparr>users_5min =
          [\<lparr>dimension_values = [ascii ''Hanoi''], metric_values = [IntText 42]\<rparr>,
           \<lparr>dimension_values = [ascii ''Paris''], metric_values = [IntText 7]\<rparr>],
        users_30min =
          [\<lparr>dimension_values = [ascii ''Hanoi''], metric_values = [IntText 50]\<rparr>],
        by_device =
          [\<lparr>dimension_values = [ascii ''mobile''], metric_values = [IntText 5]\<rparr>],
        by_page =
          [\<lparr>dimension_values = [ascii ''Home''], metric_values = [IntText 12]\<rparr>]\<rparr>"
  let ?d = "\<lparr>user_by_location =
          [\<lparr>province = ascii ''Vinh'', city = ascii ''Vinh'', latitude = 18.6796,
            longitude = 105.6813, active_users_5min = 1, active_users_30min = 3\<rparr>],
        user_by_source = [\<lparr>source = ascii ''desktop'', active_users = 3\<rparr>],
        views_by_page = [],
        facebook_page_insights_daily = [], facebook_post_insights = []\<rparr>"
  have ok: "fst (save_to_database no_faults length ?data ?d) = None"
    by (simp add: eval_store cong: and_then_weak_cong)
  from user_by_location_reference_filter
    [THEN conjunct2, THEN conjunct2, THEN conjunct1, rule_format, OF ok]
  have "distinct (map city (user_by_location (snd (save_to_database no_faults length ?data ?d))))"
    by blast
  with ok show ?thesis by simp
qed


subsection \<open>The upsert of a daily insight\<close>











subsection \<open>What an upsert leaves alone\<close>

lemma and_then_snd_cases:
  "and_then r k = r \<or> and_then r k = k (snd r)"
  by (cases "fst r") (simp_all add: and_then_def)

lemma and_then_inv:
  assumes "Q (snd r)" and "\<And>c. Q c \<Longrightarrow> Q (snd (k c))"
  shows "Q (snd (and_then r k))"
  using assms and_then_snd_cases [of r k] by auto

lemma working_execute_cases:
  "working (snd (execute F stmt c)) = working c
   \<or> working (snd (execute F stmt c)) = stmt (working c)"
  by (simp add: execute_def split: option.split)

lemma upsert_daily_insight_frame:
  assumes "(metric new, insight_date new) \<in> K"
  shows "filter (\<lambda>r. (metric r, insight_date r) \<notin> K) (upsert_daily_insight new t) =
         filter (\<lambda>r. (metric r, insight_date r) \<notin> K) t"
  using assms by (induction t) auto

lemma save_entries_frame:
  assumes "\<forall>e\<in>set entries. \<forall>dv. end_time e = Inr dv \<longrightarrow> (mn, dv) \<in> K"
  shows "filter (\<lambda>r. (metric r, insight_date r) \<notin> K)
           (facebook_page_insights_daily (working (snd (save_entries F mn rt entries c)))) =
         filter (\<lambda>r. (metric r, insight_date r) \<notin> K) (facebook_page_insights_daily (working c))"
  using assms
proof (induction entries arbitrary: c)
  case Nil
  show ?case by simp
next
  case (Cons entry entries)
  show ?case
  proof (cases "end_time entry")
    case (Inl e)
    then show ?thesis by simp
  next
    case (Inr dv)
    let ?new = "\<lparr>metric = mn, report_type = rt, insight_date = dv,
        insight_value = (case entry_value entry of None \<Rightarrow> 0 | Some v \<Rightarrow> v)\<rparr>"
    let ?x = "execute F (insert_daily_insight ?new) c"
    have key: "(metric ?new, insight_date ?new) \<in> K" using Cons.prems Inr by simp
    have first: "filter (\<lambda>r. (metric r, insight_date r) \<notin> K)
        (facebook_page_insights_daily (working (snd ?x))) =
        filter (\<lambda>r. (metric r, insight_date r) \<notin> K) (facebook_page_insights_daily (working c))"
      using working_execute_cases [of F "insert_daily_insight ?new" c]
        upsert_daily_insight_frame [OF key]
      by (auto simp: insert_daily_insight_def)
    have rest: "\<forall>e\<in>set entries. \<forall>dv. end_time e = Inr dv \<longrightarrow> (mn, dv) \<in> K"
      using Cons.prems by simp
    have "filter (\<lambda>r. (metric r, insight_date r) \<notin> K)
        (facebook_page_insights_daily
           (working (snd (and_then ?x (\<lambda>c'. save_entries F mn rt entries c'))))) =
        filter (\<lambda>r. (metric r, insight_date r) \<notin> K) (facebook_page_insights_daily (working c))"
      by (rule and_then_inv) (simp_all add: first Cons.IH [OF rest])
    then show ?thesis using Inr by simp
  qed
qed

lemma save_blocks_frame:
  assumes "\<forall>b\<in>set blocks. \<forall>mn. block_name b = Some mn \<longrightarrow>
             (\<forall>e\<in>set (block_values b). \<forall>dv. end_time e = Inr dv \<longrightarrow> (mn, dv) \<in> K)"
  shows "filter (\<lambda>r. (metric r, insight_date r) \<notin> K)
           (facebook_page_insights_daily (working (snd (save_blocks F blocks c)))) =
         filter (\<lambda>r. (metric r, insight_date r) \<notin> K) (facebook_page_insights_daily (working c))"
  using assms
proof (induction blocks arbitrary: c)
  case Nil
  show ?case by simp
next
  case (Cons b blocks)
  show ?case
  proof (cases "block_name b")
    case None
    then show ?thesis by simp
  next
    case (Some mn)
    have here: "\<forall>e\<in>set (block_values b). \<forall>dv. end_time e = Inr dv \<longrightarrow> (mn, dv) \<in> K"
      using Cons.prems Some by simp
    have rest: "\<forall>b\<in>set blocks. \<forall>mn. block_name b = Some mn \<longrightarrow>
             (\<forall>e\<in>set (block_values b). \<forall>dv. end_time e = Inr dv \<longrightarrow> (mn, dv) \<in> K)"
      using Cons.prems by simp
    have "filter (\<lambda>r. (metric r, insight_date r) \<notin> K)
        (facebook_page_insights_daily
           (working (snd (and_then
              (save_entries F mn (dict_get METRICS mn (ascii ''Unknown'')) (block_values b) c)
              (\<lambda>c'. save_blocks F blocks c'))))) =
        filter (\<lambda>r. (metric r, insight_date r) \<notin> K) (facebook_page_insights_daily (working c))"
      by (rule and_then_inv) (simp_all add: save_entries_frame [OF here] Cons.IH [OF rest])
    then show ?thesis using Some by simp
  qed
qed

lemma committed_commit_cases:
  "committed (snd (commit F c)) = committed c \<or> committed (snd (commit F c)) = working c"
  by (simp add: commit_def split: option.split)

lemma committed_save_entries:
  "committed (snd (save_entries F mn rt entries c)) = committed c"
proof (induction entries arbitrary: c)
  case Nil
  show ?case by simp
next
  case (Cons entry entries)
  show ?case
    by (cases "end_time entry") (simp_all add: committed_and_then committed_execute Cons.IH)
qed

lemma committed_save_blocks:
  "committed (snd (save_blocks F blocks c)) = committed c"
proof (induction blocks arbitrary: c)
  case Nil
  show ?case by simp
next
  case (Cons b blocks)
  show ?case
    by (cases "block_name b") (simp_all add: committed_and_then committed_save_entries Cons.IH)
qed

lemma store_insights_frame:
  assumes "\<forall>b\<in>set blocks. \<forall>mn. block_name b = Some mn \<longrightarrow>
             (\<forall>e\<in>set (block_values b). \<forall>dv. end_time e = Inr dv \<longrightarrow> (mn, dv) \<in> K)"
  shows "filter (\<lambda>r. (metric r, insight_date r) \<notin> K)
           (facebook_page_insights_daily (snd (store_insights F blocks d))) =
         filter (\<lambda>r. (metric r, insight_date r) \<notin> K) (facebook_page_insights_daily d)"
proof (cases "connect_fault F")
  case (Some msg)
  then show ?thesis by (simp add: store_insights_def get_db_connection_def)
next
  case None
  let ?c0 = "\<lparr>committed = d, working = d, calls = 0\<rparr>"
  let ?r = "save_blocks F blocks ?c0"
  let ?res = "and_then ?r (\<lambda>c'. commit F c')"
  have res: "snd (store_insights F blocks d) = committed (snd ?res)"
    using None
    by (simp add: store_insights_def get_db_connection_def case_prod_beta split: option.split)
  have w: "filter (\<lambda>r. (metric r, insight_date r) \<notin> K)
      (facebook_page_insights_daily (working (snd ?r))) =
      filter (\<lambda>r. (metric r, insight_date r) \<notin> K) (facebook_page_insights_daily d)"
    using save_blocks_frame [OF assms, of F ?c0] by simp
  have c: "committed (snd ?r) = d" by (simp add: committed_save_blocks)
  have "committed (snd ?res) = d \<or> committed (snd ?res) = working (snd ?r)"
    using and_then_snd_cases [of ?r "\<lambda>c'. commit F c'"] committed_commit_cases [of F "snd ?r"] c
    by auto
  then show ?thesis using w res by auto
qed


subsection \<open>The upsert of a post\<close>

lemma upsert_post_insight_frame:
  assumes "fmt_post_id post \<in> K"
  shows "filter (\<lambda>r. post_id r \<notin> K) (upsert_post_insight now dflt post m t) =
         filter (\<lambda>r. post_id r \<notin> K) t"
  using assms by (induction t) auto

lemma upsert_post_insight_ids:
  "map post_id (upsert_post_insight now dflt post m t) =
     (if fmt_post_id post \<in> set (map post_id t) then map post_id t
      else map post_id t @ [fmt_post_id post])"
  by (induction t) auto

lemma upsert_post_insight_video_views:
  assumes "distinct (map post_id t)"
    and "r \<in> set (upsert_post_insight now dflt post m t)"
    and "post_id r = fmt_post_id post"
  shows "video_views r = fmt_video_views post"
  using assms
proof (induction t)
  case Nil
  then show ?case by simp
next
  case (Cons r' rs)
  show ?case
  proof (cases "post_id r' = fmt_post_id post")
    case True
    then have "\<forall>x\<in>set rs. post_id x \<noteq> fmt_post_id post"
      using Cons.prems(1) by (auto simp: image_iff)
    then show ?thesis using Cons.prems(2,3) True by auto
  next
    case False
    then show ?thesis using Cons by auto
  qed
qed

lemma committed_save_posts:
  "committed (snd (save_posts F now dflt posts c)) = committed c"
proof (induction posts arbitrary: c)
  case Nil
  show ?case by simp
next
  case (Cons post posts)
  show ?case
    by (cases "adapt_post post") (simp_all add: committed_and_then committed_execute Cons.IH)
qed

lemma save_posts_frame:
  assumes "fmt_post_id ` set posts \<subseteq> K"
  shows "filter (\<lambda>r. post_id r \<notin> K)
           (facebook_post_insights (working (snd (save_posts F now dflt posts c)))) =
         filter (\<lambda>r. post_id r \<notin> K) (facebook_post_insights (working c))"
  using assms
proof (induction posts arbitrary: c)
  case Nil
  show ?case by simp
next
  case (Cons post posts)
  show ?case
  proof (cases "adapt_post post")
    case (Inl e)
    then show ?thesis by simp
  next
    case (Inr m)
    let ?x = "execute F (insert_post_insight now dflt post m) c"
    have key: "fmt_post_id post \<in> K" using Cons.prems by simp
    have first: "filter (\<lambda>r. post_id r \<notin> K) (facebook_post_insights (working (snd ?x))) =
        filter (\<lambda>r. post_id r \<notin> K) (facebook_post_insights (working c))"
      using working_execute_cases [of F "insert_post_insight now dflt post m" c]
        upsert_post_insight_frame [OF key]
      by (auto simp: insert_post_insight_def)
    have rest: "fmt_post_id ` set posts \<subseteq> K" using Cons.prems by simp
    have "filter (\<lambda>r. post_id r \<notin> K)
        (facebook_post_insights
           (working (snd (and_then ?x (\<lambda>c'. save_posts F now dflt posts c'))))) =
        filter (\<lambda>r. post_id r \<notin> K) (facebook_post_insights (working c))"
      by (rule and_then_inv) (simp_all add: first Cons.IH [OF rest])
    then show ?thesis using Inr by simp
  qed
qed

text \<open>The outcome of \<open>save_post_insights\<close>, read off the connection.\<close>

lemma save_post_insights_cases:
  assumes "posts \<noteq> []" and "connect_fault F = None"
  shows "(fst (save_post_insights F now dflt posts d) = None
          \<and> fst (save_posts F now dflt posts \<lparr>committed = d, working = d, calls = 0\<rparr>) = None
          \<and> snd (save_post_insights F now dflt posts d) =
              working (snd (save_posts F now dflt posts \<lparr>committed = d, working = d, calls = 0\<rparr>)))
       \<or> (fst (save_post_insights F now dflt posts d) \<noteq> None
          \<and> snd (save_post_insights F now dflt posts d) = d)"
proof -
  let ?c0 = "\<lparr>committed = d, working = d, calls = 0\<rparr>"
  let ?r = "save_posts F now dflt posts ?c0"
  let ?res = "and_then ?r (\<lambda>c'. commit F c')"
  have unf: "save_post_insights F now dflt posts d =
      (case fst ?res of None \<Rightarrow> (None, committed (snd ?res))
       | Some e \<Rightarrow> (Some e, committed (rollback (snd ?res))))"
    using assms by (simp add: save_post_insights_def get_db_connection_def case_prod_beta)
  have c: "committed (snd ?r) = d" by (simp add: committed_save_posts)
  show ?thesis
  proof (cases "fst ?res")
    case None
    then have r: "fst ?r = None" and eq: "?res = commit F (snd ?r)"
      by (rule and_then_done)+
    have "fst (commit F (snd ?r)) = None" using None eq by simp
    then have "committed (snd (commit F (snd ?r))) = working (snd ?r)" by (rule commit_done)
    then show ?thesis using unf None r eq by simp
  next
    case (Some e)
    have "committed (snd ?res) = d"
    proof (cases "fst ?r")
      case None
      then have eq: "?res = commit F (snd ?r)" by (simp add: and_then_None)
      then have "fst (commit F (snd ?r)) = Some e" using Some by simp
      then have "committed (snd (commit F (snd ?r))) = committed (snd ?r)" by (rule commit_raised)
      then show ?thesis using eq c by simp
    next
      case (Some e')
      then have "?res = ?r" by (simp add: and_then_Some)
      then show ?thesis using c by simp
    qed
    then show ?thesis using unf Some by (simp add: rollback_def)
  qed
qed

lemma save_post_insights_frame:
  assumes "fmt_post_id ` set posts \<subseteq> K"
  shows "filter (\<lambda>r. post_id r \<notin> K)
           (facebook_post_insights (snd (save_post_insights F now dflt posts d))) =
         filter (\<lambda>r. post_id r \<notin> K) (facebook_post_insights d)"
proof (cases "posts = [] \<or> connect_fault F \<noteq> None")
  case True
  then show ?thesis
    by (auto simp: save_post_insights_def get_db_connection_def)
next
  case False
  then have ne: "posts \<noteq> []" and nf: "connect_fault F = None" by simp_all
  let ?c0 = "\<lparr>committed = d, working = d, calls = 0\<rparr>"
  have "filter (\<lambda>r. post_id r \<notin> K)
      (facebook_post_insights (working (snd (save_posts F now dflt posts ?c0)))) =
      filter (\<lambda>r. post_id r \<notin> K) (facebook_post_insights d)"
    using save_posts_frame [OF assms, of F now dflt ?c0] by simp
  then show ?thesis using save_post_insights_cases [OF ne nf, of now dflt d] by auto
qed


subsection \<open>Claims about the upsert writes\<close>

text \<open>
  Claim C4.  An upsert-style write leaves every row alone whose key is not among the
  records of the response: the rows of \<open>facebook_page_insights_daily\<close> whose (metric,
  date) no entry of the response carries, and the rows of \<open>facebook_post_insights\<close>
  whose \<open>post_id\<close> no post of the response carries, are after the write, whether it
  went through or not, the same rows in the same order as before.
\<close>

theorem upsert_writes_frame:
  "filter (\<lambda>r. (metric r, insight_date r) \<notin>
             {(mn, dv). \<exists>b\<in>set insights_data. block_name b = Some mn
                \<and> (\<exists>e\<in>set (block_values b). end_time e = Inr dv)})
     (facebook_page_insights_daily (snd (store_insights F insights_data d))) =
   filter (\<lambda>r. (metric r, insight_date r) \<notin>
             {(mn, dv). \<exists>b\<in>set insights_data. block_name b = Some mn
                \<and> (\<exists>e\<in>set (block_values b). end_time e = Inr dv)})
     (facebook_page_insights_daily d)
   \<and> filter (\<lambda>r. post_id r \<notin> fmt_post_id ` set posts_data)
       (facebook_post_insights (snd (save_post_insights F now dflt posts_data d))) =
     filter (\<lambda>r. post_id r \<notin> fmt_post_id ` set posts_data) (facebook_post_insights d)"
proof
  show "filter (\<lambda>r. (metric r, insight_date r) \<notin>
             {(mn, dv). \<exists>b\<in>set insights_data. block_name b = Some mn
                \<and> (\<exists>e\<in>set (block_values b). end_time e = Inr dv)})
     (facebook_page_insights_daily (snd (store_insights F insights_data d))) =
   filter (\<lambda>r. (metric r, insight_date r) \<notin>
             {(mn, dv). \<exists>b\<in>set insights_data. block_name b = Some mn
                \<and> (\<exists>e\<in>set (block_values b). end_time e = Inr dv)})
     (facebook_page_insights_daily d)"
    by (rule store_insights_frame) blast
  show "filter (\<lambda>r. post_id r \<notin> fmt_post_id ` set posts_data)
       (facebook_post_insights (snd (save_post_insights F now dflt posts_data d))) =
     filter (\<lambda>r. post_id r \<notin> fmt_post_id ` set posts_data) (facebook_post_insights d)"
    by (rule save_post_insights_frame) simp
qed

lemma format_post_result:
  assumes "format_post post = Inr f"
  shows "fmt_video_views f = 0" and "raw_id post = Some (fmt_post_id f)"
  using assms by (auto simp: format_post_def split: sum.splits option.splits)

lemma format_posts_result:
  assumes "format_posts_for_database posts_raw = Inr posts"
  shows "\<forall>f\<in>set posts. fmt_video_views f = 0 \<and> (\<exists>p\<in>set posts_raw. raw_id p = Some (fmt_post_id f))"
  using assms
proof (induction posts_raw arbitrary: posts)
  case Nil
  then show ?case by simp
next
  case (Cons post rest)
  from Cons.prems obtain f fs where f: "format_post post = Inr f"
    and fs: "format_posts_for_database rest = Inr fs" and posts: "posts = f # fs"
    by (auto split: sum.splits)
  have "\<forall>f\<in>set fs. fmt_video_views f = 0 \<and> (\<exists>p\<in>set rest. raw_id p = Some (fmt_post_id f))"
    using fs by (rule Cons.IH)
  then show ?case using format_post_result [OF f] posts by auto
qed

lemma format_posts_ids:
  assumes "format_posts_for_database posts_raw = Inr posts"
  shows "map raw_id posts_raw = map (\<lambda>f. Some (fmt_post_id f)) posts"
  using assms
proof (induction posts_raw arbitrary: posts)
  case Nil
  then show ?case by simp
next
  case (Cons post rest)
  from Cons.prems obtain f fs where f: "format_post post = Inr f"
    and fs: "format_posts_for_database rest = Inr fs" and posts: "posts = f # fs"
    by (auto split: sum.splits)
  from Cons.IH [OF fs] format_post_result(2) [OF f] posts show ?case by simp
qed

lemma save_posts_video_views:
  assumes "fst (save_posts F now dflt posts c) = None"
    and "distinct (map post_id (facebook_post_insights (working c)))"
    and "\<forall>p\<in>set posts. fmt_video_views p = 0"
  shows "distinct (map post_id
           (facebook_post_insights (working (snd (save_posts F now dflt posts c)))))
       \<and> (\<forall>r\<in>set (facebook_post_insights (working (snd (save_posts F now dflt posts c)))).
            post_id r \<in> fmt_post_id ` set posts \<longrightarrow> video_views r = 0)"
  using assms
proof (induction posts arbitrary: c)
  case Nil
  then show ?case by simp
next
  case (Cons post posts)
  from Cons.prems(1) obtain m where m: "adapt_post post = Inr m"
    by (cases "adapt_post post") simp_all
  let ?x = "execute F (insert_post_insight now dflt post m) c"
  let ?t = "facebook_post_insights (working c)"
  let ?t1 = "upsert_post_insight now dflt post m ?t"
  let ?t' = "facebook_post_insights (working (snd (save_posts F now dflt posts (snd ?x))))"
  have step: "save_posts F now dflt (post # posts) c =
      and_then ?x (\<lambda>c'. save_posts F now dflt posts c')"
    using m by simp
  have ok: "fst ?x = None" using Cons.prems(1) [unfolded step] by (rule and_then_done(1))
  have next_run: "save_posts F now dflt (post # posts) c = save_posts F now dflt posts (snd ?x)"
    using step ok by (simp add: and_then_None)
  have t1: "facebook_post_insights (working (snd ?x)) = ?t1"
    using working_execute [OF ok] by (simp add: insert_post_insight_def)
  have d1: "distinct (map post_id ?t1)"
    using Cons.prems(2) by (simp add: upsert_post_insight_ids)
  have rest_ok: "fst (save_posts F now dflt posts (snd ?x)) = None"
    using Cons.prems(1) next_run by simp
  have zero: "\<forall>p\<in>set posts. fmt_video_views p = 0" and here: "fmt_video_views post = 0"
    using Cons.prems(3) by simp_all
  from Cons.IH [OF rest_ok _ zero] d1 t1
  have d': "distinct (map post_id ?t')"
    and rest_zero: "\<forall>r\<in>set ?t'. post_id r \<in> fmt_post_id ` set posts \<longrightarrow> video_views r = 0"
    by simp_all
  have kept: "filter (\<lambda>r. post_id r \<notin> fmt_post_id ` set posts) ?t' =
      filter (\<lambda>r. post_id r \<notin> fmt_post_id ` set posts) ?t1"
    using save_posts_frame [of posts "fmt_post_id ` set posts" F now dflt "snd ?x"] t1 by simp
  have "video_views r = 0"
    if r: "r \<in> set ?t'" and rid: "post_id r \<in> fmt_post_id ` set (post # posts)" for r
  proof (cases "post_id r \<in> fmt_post_id ` set posts")
    case True
    then show ?thesis using rest_zero r by blast
  next
    case False
    then have mine: "post_id r = fmt_post_id post" using rid by auto
    have "r \<in> set (filter (\<lambda>r. post_id r \<notin> fmt_post_id ` set posts) ?t')"
      using r False by simp
    then have "r \<in> set ?t1" unfolding kept by simp
    from upsert_post_insight_video_views [OF Cons.prems(2) this mine] here
    show ?thesis by simp
  qed
  then show ?case using d' next_run by simp
qed

text \<open>
  Claim C10.  Every post that \<open>format_posts_for_database\<close> returns has
  \<open>video_views = 0\<close>, whatever the provider sent.  So after a post write of the social
  cycle that went through, on a table with unique \<open>post_id\<close>, every row of a post of
  the response has \<open>video_views = 0\<close>, whatever it held before.
\<close>

theorem post_video_views_zero:
  "(\<forall>posts. format_posts_for_database posts_raw = Inr posts \<longrightarrow>
       (\<forall>p\<in>set posts. fmt_video_views p = 0))
   \<and> (distinct (map post_id (facebook_post_insights d))
        \<and> fst (sync_posts F now dflt posts_raw d) = None \<longrightarrow>
       (\<forall>r\<in>set (facebook_post_insights (snd (sync_posts F now dflt posts_raw d))).
           (\<exists>p\<in>set posts_raw. raw_id p = Some (post_id r)) \<longrightarrow> video_views r = 0))"
proof (intro conjI allI impI ballI)
  fix posts p
  assume "format_posts_for_database posts_raw = Inr posts" and "p \<in> set posts"
  then show "fmt_video_views p = 0" using format_posts_result by blast
next
  fix r
  assume pre: "distinct (map post_id (facebook_post_insights d))
      \<and> fst (sync_posts F now dflt posts_raw d) = None"
    and r: "r \<in> set (facebook_post_insights (snd (sync_posts F now dflt posts_raw d)))"
    and named: "\<exists>p\<in>set posts_raw. raw_id p = Some (post_id r)"
  from pre obtain posts where fmt: "format_posts_for_database posts_raw = Inr posts"
    by (cases "format_posts_for_database posts_raw") (simp_all add: sync_posts_def)
  then have sync: "sync_posts F now dflt posts_raw d = save_post_insights F now dflt posts d"
    by (simp add: sync_posts_def)
  have ids: "map raw_id posts_raw = map (\<lambda>f. Some (fmt_post_id f)) posts"
    using fmt by (rule format_posts_ids)
  from named have "Some (post_id r) \<in> set (map raw_id posts_raw)" by force
  then have mine: "post_id r \<in> fmt_post_id ` set posts" unfolding ids by auto
  then have ne: "posts \<noteq> []" by auto
  have nf: "connect_fault F = None"
    using pre ne unfolding sync
    by (cases "connect_fault F") (simp_all add: save_post_insights_def get_db_connection_def)
  let ?c0 = "\<lparr>committed = d, working = d, calls = 0\<rparr>"
  from save_post_insights_cases [OF ne nf, of now dflt d] pre
  have run: "fst (save_posts F now dflt posts ?c0) = None"
    and res: "snd (save_post_insights F now dflt posts d) =
        working (snd (save_posts F now dflt posts ?c0))"
    unfolding sync by simp_all
  have zero: "\<forall>p\<in>set posts. fmt_video_views p = 0" using format_posts_result [OF fmt] by blast
  from save_posts_video_views [OF run _ zero] pre
  have "\<forall>r\<in>set (facebook_post_insights (working (snd (save_posts F now dflt posts ?c0)))).
      post_id r \<in> fmt_post_id ` set posts \<longrightarrow> video_views r = 0"
    by simp
  then show "video_views r = 0" using r mine unfolding sync res by blast
qed


lemmas eval_posts =
  sync_posts_def format_post_def or_default_def dict_get_def save_post_insights_def
  adapt_post_def adapt_def insert_post_insight_def get_db_connection_def no_faults_def
  and_then_def execute_def commit_def rollback_def ascii_def

theorem upsert_writes_frame_witness:
  "filter (\<lambda>r. (metric r, insight_date r) \<notin>
             {(mn, dv). \<exists>b\<in>set
                [\<lparr>block_name = Some (ascii ''page_views_total''),
          block_values = [\<lparr>end_time = Inr (Date 2025 1 2), entry_value = Some 15\<rparr>]\<rparr>].
                block_name b = Some mn \<and> (\<exists>e\<in>set (block_values b). end_time e = Inr dv)})
     (facebook_page_insights_daily (snd (store_insights no_faults
        [\<lparr>block_name = Some (ascii ''page_views_total''),
          block_values = [\<lparr>end_time = Inr (Date 2025 1 2), entry_value = Some 15\<rparr>]\<rparr>]
       \<lparr>user_by_location = [], user_by_source = [], views_by_page = [],
        facebook_page_insights_daily =
          [\<lparr>metric = ascii ''page_views_total'', report_type = ascii ''Visits'',
            insight_date = Date 2025 1 1, insight_value = 10\<rparr>,
           \<lparr>metric = ascii ''page_daily_follows'', report_type = ascii ''Follows'',
            insight_date = Date 2025 1 2, insight_value = 3\<rparr>],
        facebook_post_insights =
          [\<lparr>post_id = ascii ''p1'', post_message = ascii ''hello'', post_type = ascii ''video'',
            created_time = ascii ''2025-01-01'', post_impressions = 5,
            post_impressions_unique = 4, post_engaged_users = 3, post_reactions = 2,
            post_comments = 1, post_shares = 0, post_clicks = 6, video_views = 77,
            updated_at = None\<rparr>]\<rparr>))) =
     [\<lparr>metric = ascii ''page_views_total'', report_type = ascii ''Visits'',
            insight_date = Date 2025 1 1, insight_value = 10\<rparr>,
      \<lparr>metric = ascii ''page_daily_follows'', report_type = ascii ''Follows'',
            insight_date = Date 2025 1 2, insight_value = 3\<rparr>]"
proof -
  let ?blocks = "[\<lparr>block_name = Some (ascii ''page_views_total''),
          block_values = [\<lparr>end_time = Inr (Date 2025 1 2), entry_value = Some 15\<rparr>]\<rparr>]"
  let ?d = "\<lparr>user_by_location = [], user_by_source = [], views_by_page = [],
        facebook_page_insights_daily =
          [\<lparr>metric = ascii ''page_views_total'', report_type = ascii ''Visits'',
            insight_date = Date 2025 1 1, insight_value = 10\<rparr>,
           \<lparr>metric = ascii ''page_daily_follows'', report_type = ascii ''Follows'',
            insight_date = Date 2025 1 2, insight_value = 3\<rparr>],
        facebook_post_insights =
          [\<lparr>post_id = ascii ''p1'', post_message = ascii ''hello'', post_type = ascii ''video'',
            created_time = ascii ''2025-01-01'', post_impressions = 5,
            post_impressions_unique = 4, post_engaged_users = 3, post_reactions = 2,
            post_comments = 1, post_shares = 0, post_clicks = 6, video_views = 77,
            updated_at = None\<rparr>]\<rparr>"
  have "filter (\<lambda>r. (metric r, insight_date r) \<notin>
             {(mn, dv). \<exists>b\<in>set ?blocks.
                block_name b = Some mn \<and> (\<exists>e\<in>set (block_values b). end_time e = Inr dv)})
     (facebook_page_insights_daily ?d) =
     [\<lparr>metric = ascii ''page_views_total'', report_type = ascii ''Visits'',
            insight_date = Date 2025 1 1, insight_value = 10\<rparr>,
      \<lparr>metric = ascii ''page_daily_follows'', report_type = ascii ''Follows'',
            insight_date = Date 2025 1 2, insight_value = 3\<rparr>]"
    by (simp add: ascii_def)
  then show ?thesis
    using upsert_writes_frame [THEN conjunct1, of ?blocks no_faults ?d] by simp
qed

theorem post_video_views_zero_witness:
  "distinct (map post_id (facebook_post_insights
       \<lparr>user_by_location = [], user_by_source = [], views_by_page = [],
        facebook_page_insights_daily = [],
        facebook_post_insights =
          [\<lparr>post_id = ascii ''p1'', post_message = ascii ''hello'', post_type = ascii ''video'',
            created_time = ascii ''2025-01-01'', post_impressions = 5,
            post_impressions_unique = 4, post_engaged_users = 3, post_reactions = 2,
            post_comments = 1, post_shares = 0, post_clicks = 6, video_views = 77,
            updated_at = None\<rparr>]\<rparr>))
   \<and> fst (sync_posts no_faults 100 None
        [\<lparr>raw_id = Some (ascii ''p1''), raw_message = Some (ascii ''hello''),
          raw_type = Some (ascii ''video''), raw_created_time = Some (ascii ''2025-01-01''),
          raw_insights = Some
            [\<lparr>insight_name = Some (ascii ''post_impressions''),
              insight_values = [Some (Number 9)]\<rparr>,
             \<lparr>insight_name = Some (ascii ''post_video_views''),
              insight_values = [Some (Number 500)]\<rparr>],
          raw_comments = Some 1, raw_shares = Some 2\<rparr>]
       \<lparr>user_by_location = [], user_by_source = [], views_by_page = [],
        facebook_page_insights_daily = [],
        facebook_post_insights =
          [\<lparr>post_id = ascii ''p1'', post_message = ascii ''hello'', post_type = ascii ''video'',
            created_time = ascii ''2025-01-01'', post_impressions = 5,
            post_impressions_unique = 4, post_engaged_users = 3, post_reactions = 2,
            post_comments = 1, post_shares = 0, post_clicks = 6, video_views = 77,
            updated_at = None\<rparr>]\<rparr>) = None
   \<and> map video_views (facebook_post_insights (snd (sync_posts no_faults 100 None
        [\<lparr>raw_id = Some (ascii ''p1''), raw_message = Some (ascii ''hello''),
          raw_type = Some (ascii ''video''), raw_created_time = Some (ascii ''2025-01-01''),
          raw_insights = Some
            [\<lparr>insight_name = Some (ascii ''post_impressions''),
              insight_values = [Some (Number 9)]\<rparr>,
             \<lparr>insight_name = Some (ascii ''post_video_views''),
              insight_values = [Some (Number 500)]\<rparr>],
          raw_comments = Some 1, raw_shares = Some 2\<rparr>]
       \<lparr>user_by_location = [], user_by_source = [], views_by_page = [],
        facebook_page_insights_daily = [],
        facebook_post_insights =
          [\<lparr>post_id = ascii ''p1'', post_message = ascii ''hello'', post_type = ascii ''video'',
            created_time = ascii ''2025-01-01'', post_impressions = 5,
            post_impressions_unique = 4, post_engaged_users = 3, post_reactions = 2,
            post_comments = 1, post_shares = 0, post_clicks = 6, video_views = 77,
            updated_at = None\<rparr>]\<rparr>))) = [0]"
proof -
  let ?raw = "[\<lparr>raw_id = Some (ascii ''p1''), raw_message = Some (ascii ''hello''),
          raw_type = Some (ascii ''video''), raw_created_time = Some (ascii ''2025-01-01''),
          raw_insights = Some
            [\<lparr>insight_name = Some (ascii ''post_impressions''),
              insight_values = [Some (Number 9)]\<rparr>,
             \<lparr>insight_name = Some (ascii ''post_video_views''),
              insight_values = [Some (Number 500)]\<rparr>],
          raw_comments = Some 1, raw_shares = Some 2\<rparr>]"
  let ?d = "\<lparr>user_by_location = [], user_by_source = [], views_by_page = [],
        facebook_page_insights_daily = [],
        facebook_post_insights =
          [\<lparr>post_id = ascii ''p1'', post_message = ascii ''hello'', post_type = ascii ''video'',
            created_time = ascii ''2025-01-01'', post_impressions = 5,
            post_impressions_unique = 4, post_engaged_users = 3, post_reactions = 2,
            post_comments = 1, post_shares = 0, post_clicks = 6, video_views = 77,
            updated_at = None\<rparr>]\<rparr>"
  let ?t = "facebook_post_insights (snd (sync_posts no_faults 100 None ?raw ?d))"
  have uniq: "distinct (map post_id (facebook_post_insights ?d))" by simp
  have ok: "fst (sync_posts no_faults 100 None ?raw ?d) = None"
    by (simp add: eval_posts cong: and_then_weak_cong)
  from uniq ok have pre: "distinct (map post_id (facebook_post_insights ?d))
      \<and> fst (sync_posts no_faults 100 None ?raw ?d) = None" ..
  from post_video_views_zero [THEN conjunct2, rule_format, OF pre]
  have zero: "video_views r = 0"
    if "r \<in> set ?t" and "\<exists>p\<in>set ?raw. raw_id p = Some (post_id r)" for r
    using that by blast
  have "map post_id ?t = [ascii ''p1'']"
    by (simp add: eval_posts cong: and_then_weak_cong)
  then obtain r where t: "?t = [r]" and r: "post_id r = ascii ''p1''" by auto
  have "video_views r = 0" using t r by (intro zero) simp_all
  with uniq ok t show ?thesis by simp
qed


subsection \<open>The token gate\<close>












subsection \<open>Claims about the token gate\<close>

lemmas eval_token =
  get_valid_page_token_def refresh_and_verify_def refresh_tokens_def refresh_page_token_def
  get_page_access_token_def verify_token_def exchange_for_long_lived_token_def
  update_env_file_def FacebookTokenManager_def reports_valid_def expiry_def truthy_def
  ascii_def











text \<open>
  Outside the amended claim: \<open>update_env_file\<close> swallows a failed write of the \<open>.env\<close>
  file.  Then the page token read back after the refresh is the old one, and where
  introspection still reports it valid (here it has 30 minutes left) it is returned as
  the refreshed token.
\<close>

lemma refreshed_token_is_old_after_failed_write:
  "get_valid_page_token
      \<lparr>debug_token = (\<lambda>t.
         if t = ascii ''OLD'' then Ok \<lparr>is_valid = True, expires_at = Some 2800\<rparr>
         else Ok \<lparr>is_valid = True, expires_at = Some 0\<rparr>),
       oauth_access_token = (\<lambda>t. Status_error),
       me_accounts = (\<lambda>u.
         Ok [\<lparr>page_name = Some (ascii ''VTV''), page_ident = Some (ascii ''1''),
              page_access_token = Some (ascii ''NEW'')\<rparr>]),
       set_key_raises = (\<lambda>k. True)\<rparr>
      1000 1000
      \<lparr>FACEBOOK_PAGE_ACCESS_TOKEN = Some (ascii ''OLD''),
       FACEBOOK_USER_ACCESS_TOKEN = None,
       FACEBOOK_PAGE_ID = Some (ascii ''1'')\<rparr> =
     (Inr (Some (ascii ''OLD'')),
      \<lparr>FACEBOOK_PAGE_ACCESS_TOKEN = Some (ascii ''OLD''),
       FACEBOOK_USER_ACCESS_TOKEN = None,
       FACEBOOK_PAGE_ID = Some (ascii ''1'')\<rparr>,
      [Token_expires_soon, Refreshing_access_token, Token_refresh_complete,
       Refreshed_token_verified])"
  by (simp add: eval_token)


subsection \<open>The read endpoints\<close>

text \<open>
  Claim C8 does not hold of the code.  Of the five read endpoints only
  \<open>get_facebook_insights\<close> catches the failure of a query and answers with the object
  \<open>{'error': message}\<close> (status 500); in the four others the exception leaves the view
  function, for a query that raises as well as for \<open>/api/active-users\<close> on an empty
  table.  No endpoint catches a failure to connect.  What every view returns is either
  the whole answer or nothing of it.
\<close>

theorem read_endpoints_on_store_failure:
  "get_map_data None (Query_raises msg) = Inl (StoreError msg)
   \<and> get_active_users None (Query_raises msg) q_30m = Inl (StoreError msg)
   \<and> get_active_users None (Rows []) q_30m = Inl TypeError
   \<and> get_users_by_source None (Query_raises msg) = Inl (StoreError msg)
   \<and> get_views_by_page None (Query_raises msg) = Inl (StoreError msg)
   \<and> get_facebook_insights None (Query_raises msg) q_viewers q_visits q_follows =
       Inr (Error_object (StoreError msg), 500)
   \<and> get_facebook_insights (Some msg) q_views q_viewers q_visits q_follows =
       Inl (StoreError msg)"
  by (simp add: get_map_data_def get_active_users_def get_users_by_source_def
      get_views_by_page_def get_facebook_insights_def fetchall_def fetchone_or_0_def)

end
